theory Spec2Isabelle
  imports Complex_Main
begin

section \<open>Data model\<close>

text \<open>
  The embedding follows the Jupiter DCA client (class \<open>JupiterDCAAPI\<close>) and the
  dashboard component that polls it.

  \<^item> A \<open>PublicKey\<close> is modelled by its base-58 string; \<open>equals\<close> is equality of
    these strings and \<open>toString\<close> is the identity.
  \<^item> A \<open>BN\<close> is an unbounded integer (\<open>int\<close>); \<open>sub\<close> is integer subtraction.
  \<^item> JavaScript numbers are the values of a type \<open>'n\<close>, and the values that come
    out of a JSON document those of a type \<open>'v\<close>. The arithmetic of the engine is
    a parameter of every function (a \<open>runtime\<close>), and nothing is assumed of it:
    what is proved holds for IEEE doubles with their rounding, signed zeros,
    infinities and \<open>NaN\<close> as it does for any other reading of the operations.
    Where a claim needs a fact of arithmetic, the fact is a hypothesis.
  \<^item> Lengths of arrays are natural numbers.
\<close>

type_synonym PublicKey = string

definition LOGOS_MINT :: string where
  "LOGOS_MINT = ''HJUfqXoYjC653f2p33i84zdCC3jc4EuVnbruSe5kpump''"

definition CHAOS_MINT :: string where
  "CHAOS_MINT = ''8SgNwESovnbG1oNEaPVhg6CR9mTMSK7jPvcYRe3wpump''"

record DCAAccountData =
  user :: PublicKey
  inputMint :: PublicKey
  outputMint :: PublicKey
  idx :: int
  nextCycleAt :: int
  inDeposited :: int
  inWithdrawn :: int
  outWithdrawn :: int
  inUsed :: int
  inAmountPerCycle :: int
  cycleFrequency :: int
  bump :: int
  minOutAmount :: "int option"
  maxOutAmount :: "int option"

record DCAAccountType =
  publicKey :: PublicKey
  account :: DCAAccountData

datatype direction = BUY | SELL

text \<open>
  The object literal returned by \<open>convertDCAAccount\<close>. The fields \<open>id\<close>,
  \<open>type\<close>, \<open>publicKey\<close> and \<open>cycleFrequency\<close> carry the suffix \<open>_pos\<close>;
  \<open>estimatedOutput\<close> is \<open>None\<close> where the source stores \<open>undefined\<close>.
\<close>

record 'n Position =
  id_pos :: string
  token :: string
  type_pos :: direction
  inputToken :: string
  outputToken :: string
  inputAmount :: 'n
  totalAmount :: 'n
  amountPerCycle :: 'n
  remainingCycles :: 'n
  cycleFrequency_pos :: 'n
  lastUpdate_pos :: 'n
  publicKey_pos :: string
  targetPrice :: 'n
  currentPrice :: 'n
  priceToken :: string
  estimatedOutput :: "'n option"

record 'n TokenSummary =
  buyOrders :: nat
  sellOrders :: nat
  buyVolume :: 'n
  sellVolume :: 'n
  buyVolumeUSDC :: 'n
  sellVolumeUSDC :: 'n

record 'n ChartDataPoint =
  timestamp :: int
  buyVolume_pt :: 'n
  sellVolume_pt :: 'n
  buyOrders_pt :: nat
  sellOrders_pt :: nat

text \<open>An object with the two fixed keys \<open>LOGOS\<close> and \<open>CHAOS\<close>.\<close>

record 'a by_token =
  LOGOS :: 'a
  CHAOS :: 'a

record token_accounts =
  buys :: "DCAAccountType list"
  sells :: "DCAAccountType list"

record 'n PriceResult =
  price :: 'n
  mint :: string

text \<open>The value of \<open>getDCAAccounts\<close>; both \<open>Record<string, _>\<close> objects are maps.\<close>

record 'n DCAResult =
  positions :: "'n Position list"
  summary :: "string \<rightharpoonup> 'n TokenSummary"
  chartData :: "string \<rightharpoonup> 'n ChartDataPoint list"

text \<open>A thrown value: an \<open>Error\<close> with its message, or \<open>undefined\<close>.\<close>

datatype js_error = Undefined | Error string

section \<open>Numbers and exceptions\<close>

text \<open>
  The engine: \<open>num b\<close> is the number written as the integer literal \<open>b\<close>, the
  three binary operations are \<open>+\<close>, \<open>*\<close> and \<open>/\<close> on numbers, \<open>truthy\<close> tells
  whether \<open>v || 0\<close> is \<open>v\<close>, and \<open>Number\<close> is the conversion of a JSON value.
\<close>

record ('n, 'v) runtime =
  num :: "int \<Rightarrow> 'n"
  js_add :: "'n \<Rightarrow> 'n \<Rightarrow> 'n"
  js_mul :: "'n \<Rightarrow> 'n \<Rightarrow> 'n"
  js_div :: "'n \<Rightarrow> 'n \<Rightarrow> 'n"
  Math_pow :: "'n \<Rightarrow> 'n \<Rightarrow> 'n"
  Math_round :: "'n \<Rightarrow> 'n"
  truthy :: "'v \<Rightarrow> bool"
  Number :: "'v \<Rightarrow> 'n"

text \<open>A computation that may throw, followed by one that uses its value.\<close>

definition andThen :: "js_error + 'a \<Rightarrow> ('a \<Rightarrow> js_error + 'b) \<Rightarrow> js_error + 'b" where
  "andThen r f = (case r of Inl err \<Rightarrow> Inl err | Inr x \<Rightarrow> f x)"

text \<open>
  \<open>BN.toNumber\<close> of the library bn.js: the number of the integer when it has at
  most 53 bits, an assertion failure otherwise.
\<close>

definition toNumber :: "('n, 'v) runtime \<Rightarrow> int \<Rightarrow> js_error + 'n" where
  "toNumber N b =
     (if \<bar>b\<bar> < 2 ^ 53 then Inr (num N b)
      else Inl (Error ''Number can only safely store up to 53 bits''))"

text \<open>\<open>Math.pow(10, 6)\<close>.\<close>

definition pow10_6 :: "('n, 'v) runtime \<Rightarrow> 'n" where
  "pow10_6 N = Math_pow N (num N 10) (num N 6)"

text \<open>\<open>xs.reduce(f, init)\<close> and \<open>xs.map(f)\<close> for a callback that may throw.\<close>

fun reduce :: "('s \<Rightarrow> 'a \<Rightarrow> js_error + 's) \<Rightarrow> 's \<Rightarrow> 'a list \<Rightarrow> js_error + 's" where
  "reduce f s [] = Inr s"
| "reduce f s (acc # xs) = (case f s acc of Inl err \<Rightarrow> Inl err | Inr s' \<Rightarrow> reduce f s' xs)"

fun map_all :: "('a \<Rightarrow> js_error + 'b) \<Rightarrow> 'a list \<Rightarrow> js_error + 'b list" where
  "map_all f [] = Inr []"
| "map_all f (acc # xs) =
     (case f acc of
        Inl err \<Rightarrow> Inl err
      | Inr y \<Rightarrow> (case map_all f xs of Inl err \<Rightarrow> Inl err | Inr ys \<Rightarrow> Inr (y # ys)))"

section \<open>The retry wrapper\<close>

text \<open>
  \<open>withRetry\<close> calls an effectful operation up to \<open>maxRetries\<close> times. The outcome
  of the call made in iteration \<open>i\<close> is \<open>operation i\<close> (\<open>Inl\<close> for a rejected
  promise). The function returns the outcome together with the trace of what it
  did: \<open>Attempt n\<close> for the call of the operation that the log numbers \<open>n\<close>
  (\<open>Attempt ${i + 1}\<close>), and \<open>Sleep ms\<close> for a \<open>setTimeout\<close> wait of \<open>ms\<close>
  milliseconds.
\<close>

datatype event = is_Attempt: Attempt nat | Sleep nat

function withRetry_loop ::
  "(nat \<Rightarrow> js_error + 'a) \<Rightarrow> nat \<Rightarrow> nat \<Rightarrow> js_error \<Rightarrow> event list \<Rightarrow> (js_error + 'a) \<times> event list"
where
  "withRetry_loop operation maxRetries i lastError tr =
     (if i < maxRetries then
        (case operation i of
           Inr v \<Rightarrow> (Inr v, tr @ [Attempt (i + 1)])
         | Inl err \<Rightarrow>
             withRetry_loop operation maxRetries (i + 1) err
               (tr @ [Attempt (i + 1), Sleep (1000 * (i + 1))]))
      else (Inl lastError, tr))"
  by pat_completeness auto
termination
  by (relation "measure (\<lambda>(operation, maxRetries, i, lastError, tr). maxRetries - i)") auto

declare withRetry_loop.simps [simp del]

definition withRetry_n :: "(nat \<Rightarrow> js_error + 'a) \<Rightarrow> nat \<Rightarrow> (js_error + 'a) \<times> event list" where
  "withRetry_n operation maxRetries = withRetry_loop operation maxRetries 0 Undefined []"

text \<open>The default \<open>maxRetries = 3\<close>.\<close>

definition withRetry :: "(nat \<Rightarrow> js_error + 'a) \<Rightarrow> (js_error + 'a) \<times> event list" where
  "withRetry operation = withRetry_n operation 3"

section \<open>Prices\<close>

text \<open>
  What \<open>fetch\<close> followed by \<open>response.json()\<close> gives for one mint: a rejection
  (any exception inside the \<open>try\<close> block), or a body whose \<open>data\<close> member may be
  missing, whose entry for a mint may be missing, and whose \<open>price\<close> member may be
  missing (\<open>None\<close> stands for \<open>undefined\<close> and \<open>null\<close>). A price that is there is
  any JSON value: a number, a string, whatever the service sends.
\<close>

datatype 'v price_response =
  FetchFailed js_error
| Body "(string \<rightharpoonup> 'v option) option"

definition getCurrentPrice ::
  "('n, 'v) runtime \<Rightarrow> (string \<Rightarrow> 'v price_response) \<Rightarrow> string \<Rightarrow> 'n PriceResult" where
  "getCurrentPrice N fetch m =
     (case fetch m of
        FetchFailed err \<Rightarrow> \<lparr>price = num N 0, mint = m\<rparr>
      | Body data \<Rightarrow>
          (let p = (case data of
                      None \<Rightarrow> num N 0
                    | Some d \<Rightarrow>
                        (case d m of
                           None \<Rightarrow> num N 0
                         | Some entry \<Rightarrow>
                             (case entry of
                                None \<Rightarrow> num N 0
                              | Some v \<Rightarrow> if truthy N v then Number N v else num N 0)))
           in \<lparr>price = p, mint = m\<rparr>))"

section \<open>Conversion and aggregation\<close>

text \<open>
  Every \<open>toNumber\<close> of the object literal may throw; a field that the source
  converts several times is converted once here, the conversion having no effect.
  In \<open>minOutAmount?.toNumber() || 0\<close> the conversion of a \<open>BN\<close> is falsy only for
  zero.
\<close>

definition convertDCAAccount ::
  "('n, 'v) runtime \<Rightarrow> DCAAccountType \<Rightarrow> 'n \<Rightarrow> string \<Rightarrow> direction \<Rightarrow> js_error + 'n Position" where
  "convertDCAAccount N acc pr tok ty =
     andThen (toNumber N (inAmountPerCycle (account acc))) (\<lambda>perCycle.
     andThen (toNumber N (inDeposited (account acc) - inWithdrawn (account acc))) (\<lambda>total.
     andThen (toNumber N (cycleFrequency (account acc))) (\<lambda>freq.
     andThen (toNumber N (nextCycleAt (account acc))) (\<lambda>nextAt.
     andThen (case minOutAmount (account acc) of
                None \<Rightarrow> Inr (num N 0)
              | Some b \<Rightarrow> andThen (toNumber N b) (\<lambda>x. Inr (if b = 0 then num N 0 else x))) (\<lambda>minOut.
       Inr \<lparr>id_pos = publicKey acc,
            token = tok,
            type_pos = ty,
            inputToken = (if ty = BUY then ''USDC'' else tok),
            outputToken = (if ty = BUY then tok else ''USDC''),
            inputAmount = js_div N perCycle (pow10_6 N),
            totalAmount = js_div N total (pow10_6 N),
            amountPerCycle = js_div N perCycle (pow10_6 N),
            remainingCycles = freq,
            cycleFrequency_pos = freq,
            lastUpdate_pos = js_mul N nextAt (num N 1000),
            publicKey_pos = publicKey acc,
            targetPrice = js_div N minOut (pow10_6 N),
            currentPrice = pr,
            priceToken = ''USDC'',
            estimatedOutput =
              (if ty = SELL then Some (js_mul N (js_div N perCycle (pow10_6 N)) pr) else None)\<rparr>)))))"

text \<open>
  The callbacks of the \<open>reduce\<close> calls: the native volume of an account,
  \<open>inDeposited.sub(inWithdrawn).toNumber() / 10^6\<close>, added to the sum, as it is or
  times a price; and the amount per cycle in decimal units added to the sum
  (the running sum is \<open>s\<close>).
\<close>

definition addVolume :: "('n, 'v) runtime \<Rightarrow> 'n \<Rightarrow> DCAAccountType \<Rightarrow> js_error + 'n" where
  "addVolume N s acc =
     andThen (toNumber N (inDeposited (account acc) - inWithdrawn (account acc)))
       (\<lambda>t. Inr (js_add N s (js_div N t (pow10_6 N))))"

definition addVolumeTimes :: "('n, 'v) runtime \<Rightarrow> 'n \<Rightarrow> 'n \<Rightarrow> DCAAccountType \<Rightarrow> js_error + 'n" where
  "addVolumeTimes N pr s acc =
     andThen (toNumber N (inDeposited (account acc) - inWithdrawn (account acc)))
       (\<lambda>t. Inr (js_add N s (js_mul N (js_div N t (pow10_6 N)) pr)))"

definition addPerCycle :: "('n, 'v) runtime \<Rightarrow> 'n \<Rightarrow> DCAAccountType \<Rightarrow> js_error + 'n" where
  "addPerCycle N s acc =
     andThen (toNumber N (inAmountPerCycle (account acc)))
       (\<lambda>t. Inr (js_add N s (js_div N t (pow10_6 N))))"

definition calculateSummaryFromRawAccounts ::
  "('n, 'v) runtime \<Rightarrow> token_accounts by_token \<Rightarrow> 'n by_token \<Rightarrow>
     js_error + (string \<rightharpoonup> 'n TokenSummary)"
where
  "calculateSummaryFromRawAccounts N accountsByToken prices =
     andThen (reduce (addVolumeTimes N (LOGOS prices)) (num N 0) (sells (LOGOS accountsByToken)))
       (\<lambda>logosSellSum.
     andThen (reduce (addVolume N) (num N 0) (buys (LOGOS accountsByToken))) (\<lambda>logosBuyVolume.
     andThen (reduce (addVolume N) (num N 0) (sells (LOGOS accountsByToken))) (\<lambda>logosSellVolume.
     andThen (reduce (addPerCycle N) (num N 0) (buys (LOGOS accountsByToken))) (\<lambda>logosBuySum.
     andThen (reduce (addVolume N) (num N 0) (buys (CHAOS accountsByToken))) (\<lambda>chaosBuyVolume.
     andThen (reduce (addVolume N) (num N 0) (sells (CHAOS accountsByToken))) (\<lambda>chaosSellVolume.
     andThen (reduce (addPerCycle N) (num N 0) (buys (CHAOS accountsByToken))) (\<lambda>chaosBuySum.
     andThen (reduce (addVolumeTimes N (CHAOS prices)) (num N 0) (sells (CHAOS accountsByToken)))
       (\<lambda>chaosSellSum.
       Inr [''LOGOS'' \<mapsto>
              \<lparr>buyOrders = length (buys (LOGOS accountsByToken)),
               sellOrders = length (sells (LOGOS accountsByToken)),
               buyVolume = logosBuyVolume,
               sellVolume = logosSellVolume,
               buyVolumeUSDC = Math_round N logosBuySum,
               sellVolumeUSDC = Math_round N logosSellSum\<rparr>,
            ''CHAOS'' \<mapsto>
              \<lparr>buyOrders = length (buys (CHAOS accountsByToken)),
               sellOrders = length (sells (CHAOS accountsByToken)),
               buyVolume = chaosBuyVolume,
               sellVolume = chaosSellVolume,
               buyVolumeUSDC = Math_round N chaosBuySum,
               sellVolumeUSDC = Math_round N chaosSellSum\<rparr>]))))))))"

section \<open>The fetch cycle\<close>

text \<open>
  The world outside one call of \<open>getDCAAccounts\<close>:
  \<^item> \<open>dca\<close> is \<open>None\<close> while the SDK object is not initialised; otherwise it holds
    the outcome of the successive calls of \<open>getAll\<close> (a rejection, or the returned
    array, \<open>None\<close> for \<open>null\<close> or \<open>undefined\<close>);
  \<^item> \<open>fetch\<close> answers the price request for a mint;
  \<^item> \<open>date_now\<close> holds the two readings of \<open>Date.now()\<close>.
\<close>

record 'v env =
  dca :: "(nat \<Rightarrow> js_error + DCAAccountType list option) option"
  fetch :: "string \<Rightarrow> 'v price_response"
  date_now :: "int by_token"

text \<open>The operation handed to \<open>withRetry\<close>.\<close>

definition fetchOperation ::
  "(nat \<Rightarrow> js_error + DCAAccountType list option) \<Rightarrow> nat \<Rightarrow> js_error + DCAAccountType list"
where
  "fetchOperation getAll k =
     (case getAll k of
        Inl err \<Rightarrow> Inl err
      | Inr accounts \<Rightarrow>
          (case accounts of
             None \<Rightarrow> Inl (Error ''No accounts returned'')
           | Some accs \<Rightarrow>
               if length accs = 0 then Inl (Error ''No accounts returned'') else Inr accs))"

text \<open>The initial categorization.\<close>

definition categorize :: "DCAAccountType list \<Rightarrow> token_accounts by_token" where
  "categorize allAccounts =
     \<lparr>LOGOS =
        \<lparr>buys = filter (\<lambda>acc. outputMint (account acc) = LOGOS_MINT) allAccounts,
         sells = filter (\<lambda>acc. inputMint (account acc) = LOGOS_MINT) allAccounts\<rparr>,
      CHAOS =
        \<lparr>buys = filter (\<lambda>acc. outputMint (account acc) = CHAOS_MINT) allAccounts,
         sells = filter (\<lambda>acc. inputMint (account acc) = CHAOS_MINT) allAccounts\<rparr>\<rparr>"

definition chartPoint :: "int \<Rightarrow> 'n TokenSummary \<Rightarrow> 'n ChartDataPoint" where
  "chartPoint t s =
     \<lparr>timestamp = t,
      buyVolume_pt = buyVolume s,
      sellVolume_pt = sellVolume s,
      buyOrders_pt = buyOrders s,
      sellOrders_pt = sellOrders s\<rparr>"

text \<open>
  The part of \<open>getDCAAccounts\<close> after the accounts have been fetched. An exception
  of \<open>calculateSummaryFromRawAccounts\<close> or of a \<open>convertDCAAccount\<close> is caught and
  thrown again by \<open>getDCAAccounts\<close>. Reading a member of a missing summary entry
  is a \<open>TypeError\<close>.
\<close>

definition aggregate :: "('n, 'v) runtime \<Rightarrow> 'v env \<Rightarrow> DCAAccountType list \<Rightarrow> js_error + 'n DCAResult" where
  "aggregate N e allAccounts =
     (let accountsByToken = categorize allAccounts;
          logosPrice = getCurrentPrice N (fetch e) LOGOS_MINT;
          chaosPrice = getCurrentPrice N (fetch e) CHAOS_MINT
      in
      andThen (calculateSummaryFromRawAccounts N accountsByToken
                 \<lparr>LOGOS = price logosPrice, CHAOS = price chaosPrice\<rparr>) (\<lambda>summ.
      andThen (map_all (\<lambda>acc. convertDCAAccount N acc (num N 0) ''LOGOS'' BUY)
                 (buys (LOGOS accountsByToken))) (\<lambda>logosBuys.
      andThen (map_all (\<lambda>acc. convertDCAAccount N acc (num N 0) ''LOGOS'' SELL)
                 (sells (LOGOS accountsByToken))) (\<lambda>logosSells.
      andThen (map_all (\<lambda>acc. convertDCAAccount N acc (num N 0) ''CHAOS'' BUY)
                 (buys (CHAOS accountsByToken))) (\<lambda>chaosBuys.
      andThen (map_all (\<lambda>acc. convertDCAAccount N acc (num N 0) ''CHAOS'' SELL)
                 (sells (CHAOS accountsByToken))) (\<lambda>chaosSells.
        (let poss = logosBuys @ logosSells @ chaosBuys @ chaosSells;
             positionsWithPrices =
               map (\<lambda>pos. pos\<lparr>currentPrice :=
                              (if token pos = ''LOGOS'' then price logosPrice else price chaosPrice)\<rparr>)
                 poss
         in case (summ ''LOGOS'', summ ''CHAOS'') of
              (Some sl, Some sc) \<Rightarrow>
                Inr \<lparr>positions = positionsWithPrices,
                     summary = summ,
                     chartData =
                       [''LOGOS'' \<mapsto> [chartPoint (LOGOS (date_now e)) sl],
                        ''CHAOS'' \<mapsto> [chartPoint (CHAOS (date_now e)) sc]]\<rparr>
            | _ \<Rightarrow> Inl (Error ''TypeError''))))))))"

definition getDCAAccounts :: "('n, 'v) runtime \<Rightarrow> 'v env \<Rightarrow> js_error + 'n DCAResult" where
  "getDCAAccounts N e =
     (case dca e of
        None \<Rightarrow> Inl (Error ''DCA SDK not initialized'')
      | Some getAll \<Rightarrow>
          (case fst (withRetry (fetchOperation getAll)) of
             Inl err \<Rightarrow> Inl err
           | Inr allAccounts \<Rightarrow> aggregate N e allAccounts))"

section \<open>The dashboard\<close>

text \<open>
  The component state set by \<open>fetchData\<close>, and the pending \<open>setTimeout\<close> calls
  (\<open>Timeout ms\<close> runs \<open>fetchData\<close> again after \<open>ms\<close> milliseconds).
\<close>

datatype timer = Timeout nat

record 'n dashboard =
  chartData_st :: "string \<rightharpoonup> 'n ChartDataPoint list"
  summaryData :: "string \<rightharpoonup> 'n TokenSummary"
  positions_st :: "'n Position list"
  loading :: bool
  error :: "string option"
  autoRefresh :: bool
  lastUpdate :: int
  timers :: "timer list"

text \<open>
  One run of \<open>fetchData\<close>; \<open>d\<close> is the reading of \<open>new Date()\<close>. The test
  \<open>!data.positions || !data.summary\<close> is false for every value of
  \<open>getDCAAccounts\<close>, an array and an object being truthy.
\<close>

definition fetchData :: "('n, 'v) runtime \<Rightarrow> 'v env \<Rightarrow> int \<Rightarrow> 'n dashboard \<Rightarrow> 'n dashboard" where
  "fetchData N e d st =
     (let st1 = st\<lparr>loading := True, error := None\<rparr>
      in case getDCAAccounts N e of
           Inr data \<Rightarrow>
             st1\<lparr>positions_st := positions data,
                 summaryData := summary data,
                 chartData_st := chartData data,
                 lastUpdate := d,
                 loading := False\<rparr>
         | Inl err \<Rightarrow>
             st1\<lparr>error := Some ''Failed to fetch data. Retrying...'',
                 timers := timers st1 @ [Timeout 2000]\<rparr>)"

section \<open>Vocabulary of the specification\<close>

text \<open>The tracked tokens: each symbol with its mint.\<close>

definition trackedTokens :: "(string \<times> string) list" where
  "trackedTokens = [(''LOGOS'', LOGOS_MINT), (''CHAOS'', CHAOS_MINT)]"

definition isTrackedMint :: "string \<Rightarrow> bool" where
  "isTrackedMint m = (m \<in> snd ` set trackedTokens)"

text \<open>An account matches when its input mint or its output mint is tracked.\<close>

definition matchesTracked :: "DCAAccountType \<Rightarrow> bool" where
  "matchesTracked acc =
     (isTrackedMint (inputMint (account acc)) \<or> isTrackedMint (outputMint (account acc)))"

text \<open>The sum of \<open>buyOrders\<close> and \<open>sellOrders\<close> over the tracked tokens.\<close>

definition totalOrders :: "'n DCAResult \<Rightarrow> nat" where
  "totalOrders out =
     sum_list (map (\<lambda>(tok, m). case summary out tok of
                                   None \<Rightarrow> 0
                                 | Some s \<Rightarrow> buyOrders s + sellOrders s) trackedTokens)"

text \<open>The accounts that the retry wrapper hands to the aggregation, if any.\<close>

definition fetched :: "'v env \<Rightarrow> DCAAccountType list option" where
  "fetched e =
     (case dca e of
        None \<Rightarrow> None
      | Some getAll \<Rightarrow>
          (case fst (withRetry (fetchOperation getAll)) of
             Inl err \<Rightarrow> None
           | Inr allAccounts \<Rightarrow> Some allAccounts))"

text \<open>
  The price source gives no price for a mint: the request fails, or the price is
  missing or falsy.
\<close>

definition noPrice :: "('n, 'v) runtime \<Rightarrow> 'v price_response \<Rightarrow> string \<Rightarrow> bool" where
  "noPrice N r m =
     (case r of
        FetchFailed err \<Rightarrow> True
      | Body None \<Rightarrow> True
      | Body (Some d) \<Rightarrow>
          (case d m of None \<Rightarrow> True | Some None \<Rightarrow> True | Some (Some v) \<Rightarrow> \<not> truthy N v))"

text \<open>The prices that one cycle reads from the price source.\<close>

definition pricesOf :: "('n, 'v) runtime \<Rightarrow> 'v env \<Rightarrow> 'n by_token" where
  "pricesOf N e =
     \<lparr>LOGOS = price (getCurrentPrice N (fetch e) LOGOS_MINT),
      CHAOS = price (getCurrentPrice N (fetch e) CHAOS_MINT)\<rparr>"

text \<open>An integer that \<open>toNumber\<close> converts.\<close>

definition safeInt :: "int \<Rightarrow> bool" where
  "safeInt b = (\<bar>b\<bar> < 2 ^ 53)"

text \<open>An account all of whose converted fields are such integers.\<close>

definition convertible :: "DCAAccountType \<Rightarrow> bool" where
  "convertible acc =
     (safeInt (inAmountPerCycle (account acc)) \<and>
      safeInt (inDeposited (account acc) - inWithdrawn (account acc)) \<and>
      safeInt (cycleFrequency (account acc)) \<and>
      safeInt (nextCycleAt (account acc)) \<and>
      (case minOutAmount (account acc) of None \<Rightarrow> True | Some b \<Rightarrow> safeInt b))"

definition allConvertible :: "DCAAccountType list \<Rightarrow> bool" where
  "allConvertible accs = list_all (\<lambda>acc. matchesTracked acc \<longrightarrow> convertible acc) accs"

text \<open>An amount of base units in decimal units: \<open>b / 10^6\<close> in the engine.\<close>

definition decimal :: "('n, 'v) runtime \<Rightarrow> int \<Rightarrow> 'n" where
  "decimal N b = js_div N (num N b) (pow10_6 N)"

text \<open>A sum as the engine computes it: from 0, adding the terms from left to right.\<close>

definition js_sum :: "('n, 'v) runtime \<Rightarrow> ('a \<Rightarrow> 'n) \<Rightarrow> 'a list \<Rightarrow> 'n" where
  "js_sum N f xs = foldl (\<lambda>s x. js_add N s (f x)) (num N 0) xs"

text \<open>The Position that \<open>convertDCAAccount\<close> returns when it returns.\<close>

definition positionOf ::
  "('n, 'v) runtime \<Rightarrow> DCAAccountType \<Rightarrow> 'n \<Rightarrow> string \<Rightarrow> direction \<Rightarrow> 'n Position" where
  "positionOf N acc pr tok ty =
     \<lparr>id_pos = publicKey acc,
      token = tok,
      type_pos = ty,
      inputToken = (if ty = BUY then ''USDC'' else tok),
      outputToken = (if ty = BUY then tok else ''USDC''),
      inputAmount = decimal N (inAmountPerCycle (account acc)),
      totalAmount = decimal N (inDeposited (account acc) - inWithdrawn (account acc)),
      amountPerCycle = decimal N (inAmountPerCycle (account acc)),
      remainingCycles = num N (cycleFrequency (account acc)),
      cycleFrequency_pos = num N (cycleFrequency (account acc)),
      lastUpdate_pos = js_mul N (num N (nextCycleAt (account acc))) (num N 1000),
      publicKey_pos = publicKey acc,
      targetPrice =
        js_div N (case minOutAmount (account acc) of None \<Rightarrow> num N 0 | Some b \<Rightarrow> num N b)
          (pow10_6 N),
      currentPrice = pr,
      priceToken = ''USDC'',
      estimatedOutput =
        (if ty = SELL then Some (js_mul N (decimal N (inAmountPerCycle (account acc))) pr)
         else None)\<rparr>"

text \<open>The summary entry of the token with mint \<open>m\<close> and price \<open>pr\<close>.\<close>

definition tokenSummary ::
  "('n, 'v) runtime \<Rightarrow> DCAAccountType list \<Rightarrow> string \<Rightarrow> 'n \<Rightarrow> 'n TokenSummary" where
  "tokenSummary N accs m pr =
     \<lparr>buyOrders = length [a \<leftarrow> accs. outputMint (account a) = m],
      sellOrders = length [a \<leftarrow> accs. inputMint (account a) = m],
      buyVolume =
        js_sum N (\<lambda>a. decimal N (inDeposited (account a) - inWithdrawn (account a)))
          [a \<leftarrow> accs. outputMint (account a) = m],
      sellVolume =
        js_sum N (\<lambda>a. decimal N (inDeposited (account a) - inWithdrawn (account a)))
          [a \<leftarrow> accs. inputMint (account a) = m],
      buyVolumeUSDC =
        Math_round N (js_sum N (\<lambda>a. decimal N (inAmountPerCycle (account a)))
          [a \<leftarrow> accs. outputMint (account a) = m]),
      sellVolumeUSDC =
        Math_round N
          (js_sum N (\<lambda>a. js_mul N (decimal N (inDeposited (account a) - inWithdrawn (account a))) pr)
             [a \<leftarrow> accs. inputMint (account a) = m])\<rparr>"

text \<open>
  What the aggregation uses of the arithmetic when a price is 0: adding such
  products to 0 gives 0, and 0 rounds to 0. For doubles this is so: the quotient is
  finite, a finite number times 0 is 0 or -0, and 0 plus either of them is 0.
\<close>

definition zeroLaws :: "('n, 'v) runtime \<Rightarrow> bool" where
  "zeroLaws N =
     ((\<forall>b. safeInt b \<longrightarrow> js_add N (num N 0) (js_mul N (decimal N b) (num N 0)) = num N 0) \<and>
      Math_round N (num N 0) = num N 0)"

text \<open>
  The wait that comes just before attempt \<open>n\<close> in a trace (0 when the attempt
  follows no wait), and the wait that comes just after it, if any.
\<close>

fun delayBeforeFrom :: "nat \<Rightarrow> event list \<Rightarrow> nat \<Rightarrow> nat option" where
  "delayBeforeFrom w [] n = None"
| "delayBeforeFrom w (Sleep ms # tr) n = delayBeforeFrom ms tr n"
| "delayBeforeFrom w (Attempt k # tr) n = (if k = n then Some w else delayBeforeFrom 0 tr n)"

definition delayBefore :: "event list \<Rightarrow> nat \<Rightarrow> nat option" where
  "delayBefore tr n = delayBeforeFrom 0 tr n"

fun delayAfter :: "event list \<Rightarrow> nat \<Rightarrow> nat option" where
  "delayAfter [] n = None"
| "delayAfter (Sleep ms # tr) n = delayAfter tr n"
| "delayAfter (Attempt k # tr) n =
     (if k = n then (case tr of Sleep ms # tr' \<Rightarrow> Some ms | _ \<Rightarrow> None) else delayAfter tr n)"

section \<open>Sample inputs\<close>

text \<open>
  Exact arithmetic on the reals, with JSON values that are numbers. It gives what
  doubles give as long as every value met is a double, which is so in the samples
  below.
\<close>

definition exactArith :: "(real, real) runtime" where
  "exactArith =
     \<lparr>num = real_of_int,
      js_add = (\<lambda>x y. x + y),
      js_mul = (\<lambda>x y. x * y),
      js_div = (\<lambda>x y. x / y),
      Math_pow = (\<lambda>x y. x ^ nat \<lfloor>y\<rfloor>),
      Math_round = (\<lambda>x. of_int \<lfloor>x + 1 / 2\<rfloor>),
      truthy = (\<lambda>v. v \<noteq> 0),
      Number = (\<lambda>v. v)\<rparr>"

definition USDC_MINT :: string where
  "USDC_MINT = ''EPjFWdd5AufqSSqeM2qN1xzybapC8G4wEGGkZwyTDt1v''"

definition mkAccount ::
  "string \<Rightarrow> string \<Rightarrow> string \<Rightarrow> int \<Rightarrow> int \<Rightarrow> int \<Rightarrow> int \<Rightarrow> DCAAccountType" where
  "mkAccount k im om dep wd per freq =
     \<lparr>publicKey = k,
      account =
        \<lparr>user = ''owner'', inputMint = im, outputMint = om, idx = 0, nextCycleAt = 1700000000,
         inDeposited = dep, inWithdrawn = wd, outWithdrawn = 0, inUsed = 0,
         inAmountPerCycle = per, cycleFrequency = freq, bump = 255,
         minOutAmount = None, maxOutAmount = None\<rparr>\<rparr>"

definition buyLogos :: DCAAccountType where
  "buyLogos = mkAccount ''acc1'' USDC_MINT LOGOS_MINT 1000000 0 1000000 60"

definition sellLogos :: DCAAccountType where
  "sellLogos = mkAccount ''acc2'' LOGOS_MINT USDC_MINT 2000000 0 500000 3600"

definition sellChaos :: DCAAccountType where
  "sellChaos = mkAccount ''acc3'' CHAOS_MINT USDC_MINT 4400000 400000 1000000 120"

definition untracked :: DCAAccountType where
  "untracked = mkAccount ''acc4'' USDC_MINT ''So11111111111111111111111111111111111111112'' 5000000 0 100000 60"

definition logosToChaos :: DCAAccountType where
  "logosToChaos = mkAccount ''acc5'' LOGOS_MINT CHAOS_MINT 3000000 0 1000000 60"

text \<open>A LOGOS buy that has deposited \<open>2^53\<close> base units.\<close>

definition hugeBuy :: DCAAccountType where
  "hugeBuy = mkAccount ''acc8'' USDC_MINT LOGOS_MINT 9007199254740992 0 1000000 60"

text \<open>A price source that knows LOGOS at 3 and fails for every other mint.\<close>

definition sampleFetch :: "string \<Rightarrow> real price_response" where
  "sampleFetch m =
     (if m = LOGOS_MINT then Body (Some [LOGOS_MINT \<mapsto> Some 3])
      else FetchFailed (Error ''network''))"

text \<open>A price source that knows both tokens.\<close>

definition goodFetch :: "string \<Rightarrow> real price_response" where
  "goodFetch m = Body (Some [LOGOS_MINT \<mapsto> Some 3, CHAOS_MINT \<mapsto> Some 2])"

text \<open>The account source answers at once.\<close>

definition sampleEnv :: "real env" where
  "sampleEnv =
     \<lparr>dca = Some (\<lambda>k. Inr (Some [buyLogos, sellLogos, sellChaos, untracked])),
      fetch = sampleFetch,
      date_now = \<lparr>LOGOS = 1700000000000, CHAOS = 1700000000001\<rparr>\<rparr>"

text \<open>The result of the cycle on this input.\<close>

definition sampleOut :: "real DCAResult" where
  "sampleOut = projr (getDCAAccounts exactArith sampleEnv)"

text \<open>The account source holds one order that sells LOGOS for CHAOS.\<close>

definition crossEnv :: "real env" where
  "crossEnv =
     \<lparr>dca = Some (\<lambda>k. Inr (Some [logosToChaos])),
      fetch = goodFetch,
      date_now = \<lparr>LOGOS = 1700000000000, CHAOS = 1700000000001\<rparr>\<rparr>"

text \<open>The account source answers with an empty array twice, then with two accounts.\<close>

definition emptyTwiceEnv :: "real env" where
  "emptyTwiceEnv =
     \<lparr>dca = Some (\<lambda>k. if k < 2 then Inr (Some []) else Inr (Some [buyLogos, sellLogos])),
      fetch = goodFetch,
      date_now = \<lparr>LOGOS = 1700000000000, CHAOS = 1700000000001\<rparr>\<rparr>"

text \<open>The account source always answers with an empty array.\<close>

definition emptyEnv :: "real env" where
  "emptyEnv =
     \<lparr>dca = Some (\<lambda>k. Inr (Some [])),
      fetch = goodFetch,
      date_now = \<lparr>LOGOS = 1700000000000, CHAOS = 1700000000001\<rparr>\<rparr>"

text \<open>The account source answers at once, with an amount of 54 bits.\<close>

definition hugeEnv :: "real env" where
  "hugeEnv =
     \<lparr>dca = Some (\<lambda>k. Inr (Some [hugeBuy])),
      fetch = goodFetch,
      date_now = \<lparr>LOGOS = 1700000000000, CHAOS = 1700000000001\<rparr>\<rparr>"

definition sampleDashboard :: "real dashboard" where
  "sampleDashboard =
     \<lparr>chartData_st = [''LOGOS'' \<mapsto> []],
      summaryData = Map.empty,
      positions_st = [positionOf exactArith buyLogos 3 ''LOGOS'' BUY],
      loading = False,
      error = None,
      autoRefresh = True,
      lastUpdate = 1699999999000,
      timers = []\<rparr>"

text \<open>Two LOGOS sells of volume \<open>1/8\<close> each.\<close>

definition smallSell1 :: DCAAccountType where
  "smallSell1 = mkAccount ''acc6'' LOGOS_MINT USDC_MINT 125000 0 125000 60"

definition smallSell2 :: DCAAccountType where
  "smallSell2 = mkAccount ''acc7'' LOGOS_MINT USDC_MINT 175000 50000 125000 60"

definition smallSellsEnv :: "real env" where
  "smallSellsEnv =
     \<lparr>dca = Some (\<lambda>k. Inr (Some [smallSell1, smallSell2])),
      fetch = goodFetch,
      date_now = \<lparr>LOGOS = 1700000000000, CHAOS = 1700000000001\<rparr>\<rparr>"

text \<open>An operation that is rejected on every call.\<close>

definition failingOp :: "nat \<Rightarrow> js_error + DCAAccountType list" where
  "failingOp k = Inl (Error (if k = 0 then ''timeout'' else if k = 1 then ''reset'' else ''refused''))"

text \<open>An operation that is rejected once and then returns.\<close>

definition secondTryOp :: "nat \<Rightarrow> js_error + DCAAccountType list" where
  "secondTryOp k = (if k = 0 then Inl (Error ''timeout'') else Inr [buyLogos])"

section \<open>Basic facts\<close>

subsection \<open>Exceptions and conversions\<close>

lemma andThen_Inl [simp]: "andThen (Inl err) f = Inl err"
  by (simp add: andThen_def)

lemma andThen_Inr [simp]: "andThen (Inr x) f = f x"
  by (simp add: andThen_def)

lemma andThen_Inr_iff: "andThen r f = Inr y \<longleftrightarrow> (\<exists>x. r = Inr x \<and> f x = Inr y)"
  by (cases r) simp_all

lemma toNumber_safe: "safeInt b \<Longrightarrow> toNumber N b = Inr (num N b)"
  by (simp add: toNumber_def safeInt_def)

lemma toNumber_Inr_iff: "toNumber N b = Inr x \<longleftrightarrow> safeInt b \<and> x = num N b"
  by (auto simp: toNumber_def safeInt_def)

lemma toNumber_unsafe: "\<not> safeInt b \<Longrightarrow> isl (toNumber N b)"
  by (simp add: toNumber_def safeInt_def)

subsection \<open>The sums of the summary\<close>

lemma reduce_addVolume:
  assumes "\<forall>a \<in> set xs. safeInt (inDeposited (account a) - inWithdrawn (account a))"
  shows "reduce (addVolume N) s xs =
     Inr (foldl (\<lambda>s a. js_add N s (decimal N (inDeposited (account a) - inWithdrawn (account a)))) s xs)"
  using assms
  by (induction xs arbitrary: s) (simp_all add: addVolume_def toNumber_safe decimal_def)

lemma reduce_addVolumeTimes:
  assumes "\<forall>a \<in> set xs. safeInt (inDeposited (account a) - inWithdrawn (account a))"
  shows "reduce (addVolumeTimes N pr) s xs =
     Inr (foldl (\<lambda>s a. js_add N s
            (js_mul N (decimal N (inDeposited (account a) - inWithdrawn (account a))) pr)) s xs)"
  using assms
  by (induction xs arbitrary: s) (simp_all add: addVolumeTimes_def toNumber_safe decimal_def)

lemma reduce_addPerCycle:
  assumes "\<forall>a \<in> set xs. safeInt (inAmountPerCycle (account a))"
  shows "reduce (addPerCycle N) s xs =
     Inr (foldl (\<lambda>s a. js_add N s (decimal N (inAmountPerCycle (account a)))) s xs)"
  using assms
  by (induction xs arbitrary: s) (simp_all add: addPerCycle_def toNumber_safe decimal_def)

subsection \<open>Conversion of an account\<close>

lemma convert_convertible:
  assumes "convertible acc"
  shows "convertDCAAccount N acc pr tok ty = Inr (positionOf N acc pr tok ty)"
proof -
  have m: "(case minOutAmount (account acc) of
              None \<Rightarrow> Inr (num N 0)
            | Some b \<Rightarrow> andThen (toNumber N b) (\<lambda>x. Inr (if b = 0 then num N 0 else x))) =
           Inr (case minOutAmount (account acc) of None \<Rightarrow> num N 0 | Some b \<Rightarrow> num N b)"
    using assms by (auto simp: convertible_def toNumber_safe split: option.splits)
  from assms have
    "toNumber N (inAmountPerCycle (account acc)) = Inr (num N (inAmountPerCycle (account acc)))"
    "toNumber N (inDeposited (account acc) - inWithdrawn (account acc)) =
       Inr (num N (inDeposited (account acc) - inWithdrawn (account acc)))"
    "toNumber N (cycleFrequency (account acc)) = Inr (num N (cycleFrequency (account acc)))"
    "toNumber N (nextCycleAt (account acc)) = Inr (num N (nextCycleAt (account acc)))"
    by (simp_all add: convertible_def toNumber_safe)
  then show ?thesis
    by (simp add: convertDCAAccount_def positionOf_def decimal_def m)
qed

lemma convert_Inr_D:
  assumes "convertDCAAccount N acc pr tok ty = Inr p"
  shows "convertible acc"
proof -
  from assms obtain minOut where
    "safeInt (inAmountPerCycle (account acc))"
    "safeInt (inDeposited (account acc) - inWithdrawn (account acc))"
    "safeInt (cycleFrequency (account acc))"
    "safeInt (nextCycleAt (account acc))"
    and m: "(case minOutAmount (account acc) of
              None \<Rightarrow> Inr (num N 0)
            | Some b \<Rightarrow> andThen (toNumber N b) (\<lambda>x. Inr (if b = 0 then num N 0 else x))) = Inr minOut"
    unfolding convertDCAAccount_def andThen_Inr_iff toNumber_Inr_iff by blast
  moreover from m have "case minOutAmount (account acc) of None \<Rightarrow> True | Some b \<Rightarrow> safeInt b"
    by (auto simp: andThen_Inr_iff toNumber_Inr_iff split: option.splits)
  ultimately show ?thesis
    by (simp add: convertible_def)
qed

lemma convert_Inr_iff:
  "convertDCAAccount N acc pr tok ty = Inr p \<longleftrightarrow>
     convertible acc \<and> p = positionOf N acc pr tok ty"
  using convert_convertible [of acc N pr tok ty] convert_Inr_D [of N acc pr tok ty p] by auto

lemma positionOf_fields:
  "id_pos (positionOf N acc pr tok ty) = publicKey acc"
  "token (positionOf N acc pr tok ty) = tok"
  "type_pos (positionOf N acc pr tok ty) = ty"
  "inputToken (positionOf N acc pr tok ty) = (if ty = BUY then ''USDC'' else tok)"
  "outputToken (positionOf N acc pr tok ty) = (if ty = BUY then tok else ''USDC'')"
  "amountPerCycle (positionOf N acc pr tok ty) = decimal N (inAmountPerCycle (account acc))"
  "totalAmount (positionOf N acc pr tok ty) =
     decimal N (inDeposited (account acc) - inWithdrawn (account acc))"
  "remainingCycles (positionOf N acc pr tok ty) = num N (cycleFrequency (account acc))"
  "cycleFrequency_pos (positionOf N acc pr tok ty) = num N (cycleFrequency (account acc))"
  "currentPrice (positionOf N acc pr tok ty) = pr"
  "estimatedOutput (positionOf N acc pr tok ty) =
     (if ty = SELL then Some (js_mul N (decimal N (inAmountPerCycle (account acc))) pr) else None)"
  by (simp_all add: positionOf_def)

lemma map_all_Inr_D:
  "map_all f xs = Inr ys \<Longrightarrow> x \<in> set xs \<Longrightarrow> \<exists>y. f x = Inr y"
  by (induction xs arbitrary: ys) (auto split: sum.splits)

lemma map_all_convert:
  assumes "\<forall>a \<in> set xs. convertible a"
  shows "map_all (\<lambda>acc. convertDCAAccount N acc pr tok ty) xs =
     Inr (map (\<lambda>acc. positionOf N acc pr tok ty) xs)"
  using assms by (induction xs) (simp_all add: convert_convertible)

lemma map_all_convert_D:
  assumes "map_all (\<lambda>acc. convertDCAAccount N acc pr tok ty) xs = Inr ys" and "a \<in> set xs"
  shows "convertible a"
proof -
  from map_all_Inr_D [OF assms] obtain y where "convertDCAAccount N a pr tok ty = Inr y"
    by blast
  then show ?thesis
    by (rule convert_Inr_D)
qed

subsection \<open>Tracked tokens and prices\<close>

lemma mints_distinct: "LOGOS_MINT \<noteq> CHAOS_MINT"
  by (simp add: LOGOS_MINT_def CHAOS_MINT_def)

lemma isTrackedMint_iff: "isTrackedMint m \<longleftrightarrow> m = LOGOS_MINT \<or> m = CHAOS_MINT"
  by (auto simp: isTrackedMint_def trackedTokens_def)

lemma tracked_cases:
  assumes "(tok, m) \<in> set trackedTokens"
  obtains "tok = ''LOGOS''" "m = LOGOS_MINT" | "tok = ''CHAOS''" "m = CHAOS_MINT"
  using assms by (auto simp: trackedTokens_def)

lemma noPrice_price: "noPrice N (f m) m \<Longrightarrow> price (getCurrentPrice N f m) = num N 0"
  by (simp add: noPrice_def getCurrentPrice_def split: price_response.splits option.splits)

lemma allConvertible_iff:
  "allConvertible accs \<longleftrightarrow> (\<forall>a \<in> set accs. matchesTracked a \<longrightarrow> convertible a)"
  by (simp add: allConvertible_def list_all_iff)

lemma allConvertible_partition:
  assumes "allConvertible accs" and "isTrackedMint m"
  shows "\<forall>a \<in> set [a \<leftarrow> accs. outputMint (account a) = m]. convertible a"
    and "\<forall>a \<in> set [a \<leftarrow> accs. inputMint (account a) = m]. convertible a"
  using assms by (auto simp: allConvertible_iff matchesTracked_def)

lemma convertible_safe:
  "convertible a \<Longrightarrow> safeInt (inDeposited (account a) - inWithdrawn (account a))"
  "convertible a \<Longrightarrow> safeInt (inAmountPerCycle (account a))"
  by (simp_all add: convertible_def)

subsection \<open>The summary of convertible accounts\<close>

lemma summary_convertible:
  assumes "allConvertible accs"
  shows "calculateSummaryFromRawAccounts N (categorize accs) prices =
     Inr [''LOGOS'' \<mapsto> tokenSummary N accs LOGOS_MINT (LOGOS prices),
          ''CHAOS'' \<mapsto> tokenSummary N accs CHAOS_MINT (CHAOS prices)]"
proof -
  have t: "isTrackedMint LOGOS_MINT" "isTrackedMint CHAOS_MINT"
    by (simp_all add: isTrackedMint_iff)
  note p = allConvertible_partition [OF assms t(1)] allConvertible_partition [OF assms t(2)]
  have
    "reduce (addVolumeTimes N (LOGOS prices)) (num N 0) [a \<leftarrow> accs. inputMint (account a) = LOGOS_MINT] =
       Inr (js_sum N (\<lambda>a. js_mul N (decimal N (inDeposited (account a) - inWithdrawn (account a))) (LOGOS prices))
         [a \<leftarrow> accs. inputMint (account a) = LOGOS_MINT])"
    "reduce (addVolume N) (num N 0) [a \<leftarrow> accs. outputMint (account a) = LOGOS_MINT] =
       Inr (js_sum N (\<lambda>a. decimal N (inDeposited (account a) - inWithdrawn (account a)))
         [a \<leftarrow> accs. outputMint (account a) = LOGOS_MINT])"
    "reduce (addVolume N) (num N 0) [a \<leftarrow> accs. inputMint (account a) = LOGOS_MINT] =
       Inr (js_sum N (\<lambda>a. decimal N (inDeposited (account a) - inWithdrawn (account a)))
         [a \<leftarrow> accs. inputMint (account a) = LOGOS_MINT])"
    "reduce (addPerCycle N) (num N 0) [a \<leftarrow> accs. outputMint (account a) = LOGOS_MINT] =
       Inr (js_sum N (\<lambda>a. decimal N (inAmountPerCycle (account a)))
         [a \<leftarrow> accs. outputMint (account a) = LOGOS_MINT])"
    "reduce (addVolume N) (num N 0) [a \<leftarrow> accs. outputMint (account a) = CHAOS_MINT] =
       Inr (js_sum N (\<lambda>a. decimal N (inDeposited (account a) - inWithdrawn (account a)))
         [a \<leftarrow> accs. outputMint (account a) = CHAOS_MINT])"
    "reduce (addVolume N) (num N 0) [a \<leftarrow> accs. inputMint (account a) = CHAOS_MINT] =
       Inr (js_sum N (\<lambda>a. decimal N (inDeposited (account a) - inWithdrawn (account a)))
         [a \<leftarrow> accs. inputMint (account a) = CHAOS_MINT])"
    "reduce (addPerCycle N) (num N 0) [a \<leftarrow> accs. outputMint (account a) = CHAOS_MINT] =
       Inr (js_sum N (\<lambda>a. decimal N (inAmountPerCycle (account a)))
         [a \<leftarrow> accs. outputMint (account a) = CHAOS_MINT])"
    "reduce (addVolumeTimes N (CHAOS prices)) (num N 0) [a \<leftarrow> accs. inputMint (account a) = CHAOS_MINT] =
       Inr (js_sum N (\<lambda>a. js_mul N (decimal N (inDeposited (account a) - inWithdrawn (account a))) (CHAOS prices))
         [a \<leftarrow> accs. inputMint (account a) = CHAOS_MINT])"
    unfolding js_sum_def
    using p
    by (intro reduce_addVolume reduce_addVolumeTimes reduce_addPerCycle ballI convertible_safe; blast)+
  then show ?thesis
    by (simp add: calculateSummaryFromRawAccounts_def categorize_def tokenSummary_def)
qed

subsection \<open>The value of one cycle\<close>

lemma categorize_fields:
  "buys (LOGOS (categorize accs)) = [a \<leftarrow> accs. outputMint (account a) = LOGOS_MINT]"
  "sells (LOGOS (categorize accs)) = [a \<leftarrow> accs. inputMint (account a) = LOGOS_MINT]"
  "buys (CHAOS (categorize accs)) = [a \<leftarrow> accs. outputMint (account a) = CHAOS_MINT]"
  "sells (CHAOS (categorize accs)) = [a \<leftarrow> accs. inputMint (account a) = CHAOS_MINT]"
  by (simp_all add: categorize_def)

lemma aggregate_convertible:
  assumes "allConvertible accs"
  shows "\<exists>out. aggregate N e accs = Inr out \<and>
     summary out =
       [''LOGOS'' \<mapsto> tokenSummary N accs LOGOS_MINT (LOGOS (pricesOf N e)),
        ''CHAOS'' \<mapsto> tokenSummary N accs CHAOS_MINT (CHAOS (pricesOf N e))] \<and>
     positions out =
       map (\<lambda>pos. pos\<lparr>currentPrice :=
                      (if token pos = ''LOGOS'' then LOGOS (pricesOf N e) else CHAOS (pricesOf N e))\<rparr>)
         (map (\<lambda>acc. positionOf N acc (num N 0) ''LOGOS'' BUY)
            [a \<leftarrow> accs. outputMint (account a) = LOGOS_MINT] @
          map (\<lambda>acc. positionOf N acc (num N 0) ''LOGOS'' SELL)
            [a \<leftarrow> accs. inputMint (account a) = LOGOS_MINT] @
          map (\<lambda>acc. positionOf N acc (num N 0) ''CHAOS'' BUY)
            [a \<leftarrow> accs. outputMint (account a) = CHAOS_MINT] @
          map (\<lambda>acc. positionOf N acc (num N 0) ''CHAOS'' SELL)
            [a \<leftarrow> accs. inputMint (account a) = CHAOS_MINT])"
proof -
  have t: "isTrackedMint LOGOS_MINT" "isTrackedMint CHAOS_MINT"
    by (simp_all add: isTrackedMint_iff)
  note p = allConvertible_partition [OF assms t(1)] allConvertible_partition [OF assms t(2)]
  show ?thesis
    by (simp add: aggregate_def Let_def summary_convertible [OF assms] map_all_convert p
        categorize_fields pricesOf_def)
qed

lemma aggregate_Inr_D:
  assumes "aggregate N e accs = Inr out"
  shows "allConvertible accs"
proof -
  from assms obtain lb ls cb cs where
    lb: "map_all (\<lambda>acc. convertDCAAccount N acc (num N 0) ''LOGOS'' BUY)
           [a \<leftarrow> accs. outputMint (account a) = LOGOS_MINT] = Inr lb"
    and ls: "map_all (\<lambda>acc. convertDCAAccount N acc (num N 0) ''LOGOS'' SELL)
           [a \<leftarrow> accs. inputMint (account a) = LOGOS_MINT] = Inr ls"
    and cb: "map_all (\<lambda>acc. convertDCAAccount N acc (num N 0) ''CHAOS'' BUY)
           [a \<leftarrow> accs. outputMint (account a) = CHAOS_MINT] = Inr cb"
    and cs: "map_all (\<lambda>acc. convertDCAAccount N acc (num N 0) ''CHAOS'' SELL)
           [a \<leftarrow> accs. inputMint (account a) = CHAOS_MINT] = Inr cs"
    by (auto simp: aggregate_def Let_def andThen_Inr_iff categorize_fields)
  have "convertible a" if "a \<in> set accs" and "matchesTracked a" for a
  proof -
    from that(2) consider "outputMint (account a) = LOGOS_MINT" | "inputMint (account a) = LOGOS_MINT"
      | "outputMint (account a) = CHAOS_MINT" | "inputMint (account a) = CHAOS_MINT"
      by (auto simp: matchesTracked_def isTrackedMint_iff)
    then show ?thesis
    proof cases
      case 1 with that(1) show ?thesis by (intro map_all_convert_D [OF lb]) simp
    next
      case 2 with that(1) show ?thesis by (intro map_all_convert_D [OF ls]) simp
    next
      case 3 with that(1) show ?thesis by (intro map_all_convert_D [OF cb]) simp
    next
      case 4 with that(1) show ?thesis by (intro map_all_convert_D [OF cs]) simp
    qed
  qed
  then show ?thesis
    by (simp add: allConvertible_iff)
qed

lemma getDCAAccounts_fetched:
  "fetched e = Some accs \<Longrightarrow> getDCAAccounts N e = aggregate N e accs"
  by (simp add: fetched_def getDCAAccounts_def split: option.splits sum.splits)

lemma getDCAAccounts_not_fetched:
  "fetched e = None \<Longrightarrow> isl (getDCAAccounts N e)"
  by (simp add: fetched_def getDCAAccounts_def split: option.splits sum.splits)

lemma fetched_fetch_update: "fetched (e\<lparr>fetch := f'\<rparr>) = fetched e"
  by (simp add: fetched_def)

text \<open>A cycle returns exactly when accounts were fetched and those that match convert.\<close>

lemma cycle_succeeds:
  assumes "fetched e = Some accs" and "allConvertible accs"
  obtains out where "getDCAAccounts N e = Inr out"
  using assms aggregate_convertible [of accs N e] by (auto simp: getDCAAccounts_fetched)

lemma cycle_fails:
  assumes "fetched e = Some accs" and "\<not> allConvertible accs"
  shows "isl (getDCAAccounts N e)"
proof (cases "getDCAAccounts N e")
  case (Inl err)
  then show ?thesis by simp
next
  case (Inr out)
  with assms(1) have "aggregate N e accs = Inr out"
    by (simp add: getDCAAccounts_fetched)
  with assms(2) show ?thesis
    using aggregate_Inr_D by blast
qed

lemma cycle_result:
  assumes "fetched e = Some accs" and "getDCAAccounts N e = Inr out"
  shows "allConvertible accs"
    and "summary out =
       [''LOGOS'' \<mapsto> tokenSummary N accs LOGOS_MINT (LOGOS (pricesOf N e)),
        ''CHAOS'' \<mapsto> tokenSummary N accs CHAOS_MINT (CHAOS (pricesOf N e))]"
    and "positions out =
       map (\<lambda>pos. pos\<lparr>currentPrice :=
                      (if token pos = ''LOGOS'' then LOGOS (pricesOf N e) else CHAOS (pricesOf N e))\<rparr>)
         (map (\<lambda>acc. positionOf N acc (num N 0) ''LOGOS'' BUY)
            [a \<leftarrow> accs. outputMint (account a) = LOGOS_MINT] @
          map (\<lambda>acc. positionOf N acc (num N 0) ''LOGOS'' SELL)
            [a \<leftarrow> accs. inputMint (account a) = LOGOS_MINT] @
          map (\<lambda>acc. positionOf N acc (num N 0) ''CHAOS'' BUY)
            [a \<leftarrow> accs. outputMint (account a) = CHAOS_MINT] @
          map (\<lambda>acc. positionOf N acc (num N 0) ''CHAOS'' SELL)
            [a \<leftarrow> accs. inputMint (account a) = CHAOS_MINT])"
proof -
  from assms have agg: "aggregate N e accs = Inr out"
    by (simp add: getDCAAccounts_fetched)
  then show c: "allConvertible accs"
    by (rule aggregate_Inr_D)
  from aggregate_convertible [OF c, of N e] agg
  show "summary out =
       [''LOGOS'' \<mapsto> tokenSummary N accs LOGOS_MINT (LOGOS (pricesOf N e)),
        ''CHAOS'' \<mapsto> tokenSummary N accs CHAOS_MINT (CHAOS (pricesOf N e))]"
    by auto
  from aggregate_convertible [OF c, of N e] agg
  show "positions out =
       map (\<lambda>pos. pos\<lparr>currentPrice :=
                      (if token pos = ''LOGOS'' then LOGOS (pricesOf N e) else CHAOS (pricesOf N e))\<rparr>)
         (map (\<lambda>acc. positionOf N acc (num N 0) ''LOGOS'' BUY)
            [a \<leftarrow> accs. outputMint (account a) = LOGOS_MINT] @
          map (\<lambda>acc. positionOf N acc (num N 0) ''LOGOS'' SELL)
            [a \<leftarrow> accs. inputMint (account a) = LOGOS_MINT] @
          map (\<lambda>acc. positionOf N acc (num N 0) ''CHAOS'' BUY)
            [a \<leftarrow> accs. outputMint (account a) = CHAOS_MINT] @
          map (\<lambda>acc. positionOf N acc (num N 0) ''CHAOS'' SELL)
            [a \<leftarrow> accs. inputMint (account a) = CHAOS_MINT])"
    by auto
qed

lemma tracked_summary:
  assumes "fetched e = Some accs" and "getDCAAccounts N e = Inr out"
    and "(tok, m) \<in> set trackedTokens"
  shows "summary out tok = Some (tokenSummary N accs m (price (getCurrentPrice N (fetch e) m)))"
  using assms(3)
  by (rule tracked_cases) (simp_all add: cycle_result(2) [OF assms(1,2)] pricesOf_def)

lemma position_origin:
  assumes "fetched e = Some accs" and "getDCAAccounts N e = Inr out"
    and "p \<in> set (positions out)"
  shows "\<exists>a tok ty. a \<in> set accs \<and>
           (tok, if ty = BUY then outputMint (account a) else inputMint (account a)) \<in> set trackedTokens \<and>
           p = (positionOf N a (num N 0) tok ty)\<lparr>currentPrice :=
                  (if tok = ''LOGOS'' then LOGOS (pricesOf N e) else CHAOS (pricesOf N e))\<rparr>"
proof -
  from assms(3) cycle_result(3) [OF assms(1,2)] consider
      a where "a \<in> set accs" "outputMint (account a) = LOGOS_MINT"
        "p = (positionOf N a (num N 0) ''LOGOS'' BUY)\<lparr>currentPrice := LOGOS (pricesOf N e)\<rparr>"
    | a where "a \<in> set accs" "inputMint (account a) = LOGOS_MINT"
        "p = (positionOf N a (num N 0) ''LOGOS'' SELL)\<lparr>currentPrice := LOGOS (pricesOf N e)\<rparr>"
    | a where "a \<in> set accs" "outputMint (account a) = CHAOS_MINT"
        "p = (positionOf N a (num N 0) ''CHAOS'' BUY)\<lparr>currentPrice := CHAOS (pricesOf N e)\<rparr>"
    | a where "a \<in> set accs" "inputMint (account a) = CHAOS_MINT"
        "p = (positionOf N a (num N 0) ''CHAOS'' SELL)\<lparr>currentPrice := CHAOS (pricesOf N e)\<rparr>"
    by (auto simp: positionOf_fields)
  then show ?thesis
  proof cases
    case 1
    then show ?thesis
      by (intro exI [of _ a] exI [of _ "''LOGOS''"] exI [of _ BUY]) (simp add: trackedTokens_def)
  next
    case 2
    then show ?thesis
      by (intro exI [of _ a] exI [of _ "''LOGOS''"] exI [of _ SELL]) (simp add: trackedTokens_def)
  next
    case 3
    then show ?thesis
      by (intro exI [of _ a] exI [of _ "''CHAOS''"] exI [of _ BUY]) (simp add: trackedTokens_def)
  next
    case 4
    then show ?thesis
      by (intro exI [of _ a] exI [of _ "''CHAOS''"] exI [of _ SELL]) (simp add: trackedTokens_def)
  qed
qed

subsection \<open>The retry wrapper unfolded\<close>

lemma withRetry_unfold:
  "withRetry operation =
     (case operation 0 of
        Inr v \<Rightarrow> (Inr v, [Attempt 1])
      | Inl e0 \<Rightarrow>
          (case operation 1 of
             Inr v \<Rightarrow> (Inr v, [Attempt 1, Sleep 1000, Attempt 2])
           | Inl e1 \<Rightarrow>
               (case operation 2 of
                  Inr v \<Rightarrow> (Inr v, [Attempt 1, Sleep 1000, Attempt 2, Sleep 2000, Attempt 3])
                | Inl e2 \<Rightarrow>
                    (Inl e2, [Attempt 1, Sleep 1000, Attempt 2, Sleep 2000, Attempt 3, Sleep 3000]))))"
  by (simp add: withRetry_def withRetry_n_def withRetry_loop.simps [of _ 3] numeral_2_eq_2
      split: sum.splits)

lemma withRetry_cases:
  "withRetry operation =
     (if \<not> isl (operation 0) then (operation 0, [Attempt 1])
      else if \<not> isl (operation 1) then (operation 1, [Attempt 1, Sleep 1000, Attempt 2])
      else if \<not> isl (operation 2)
        then (operation 2, [Attempt 1, Sleep 1000, Attempt 2, Sleep 2000, Attempt 3])
      else (operation 2, [Attempt 1, Sleep 1000, Attempt 2, Sleep 2000, Attempt 3, Sleep 3000]))"
  by (cases "operation 0"; cases "operation 1"; cases "operation 2")
    (simp_all add: withRetry_unfold)

lemma all_less_3: "(\<forall>k<3. P k) \<longleftrightarrow> P 0 \<and> P 1 \<and> P (2::nat)"
  by (auto simp: less_Suc_eq numeral_3_eq_3 numeral_2_eq_2)

lemma withRetry_fails_iff:
  "isl (fst (withRetry operation)) \<longleftrightarrow> (\<forall>k<3. isl (operation k))"
  by (simp add: withRetry_cases all_less_3)

lemma withRetry_trace_cong:
  assumes "\<forall>k<3. isl (operation' k) = isl (operation k)"
  shows "snd (withRetry operation') = snd (withRetry operation)"
  using assms by (simp add: withRetry_cases all_less_3)

lemma fetched_None_iff:
  "dca e = Some getAll \<Longrightarrow> fetched e = None \<longleftrightarrow> (\<forall>k<3. isl (fetchOperation getAll k))"
  using withRetry_fails_iff [of "fetchOperation getAll"]
  by (cases "fst (withRetry (fetchOperation getAll))") (simp_all add: fetched_def)

subsection \<open>The sample inputs evaluated\<close>

lemma sample_mints:
  "USDC_MINT \<noteq> LOGOS_MINT" "USDC_MINT \<noteq> CHAOS_MINT" "CHAOS_MINT \<noteq> LOGOS_MINT"
  "''So11111111111111111111111111111111111111112'' \<noteq> LOGOS_MINT"
  "''So11111111111111111111111111111111111111112'' \<noteq> CHAOS_MINT"
  by (simp_all add: USDC_MINT_def LOGOS_MINT_def CHAOS_MINT_def)

lemma exactArith_simps:
  "num exactArith b = real_of_int b"
  "js_add exactArith x y = x + y"
  "js_mul exactArith x y = x * y"
  "js_div exactArith x y = x / y"
  "Math_round exactArith x = of_int \<lfloor>x + 1 / 2\<rfloor>"
  "truthy exactArith v = (v \<noteq> 0)"
  "Number exactArith v = v"
  "pow10_6 exactArith = 1000000"
  "decimal exactArith b = real_of_int b / 1000000"
  by (simp_all add: exactArith_def pow10_6_def decimal_def)

lemma zeroLaws_exactArith: "zeroLaws exactArith"
  by (simp add: zeroLaws_def exactArith_simps)

lemma safeInt_numeral: "safeInt b \<longleftrightarrow> - 9007199254740992 < b \<and> b < 9007199254740992"
  by (auto simp: safeInt_def)

lemma convertible_mkAccount:
  "convertible (mkAccount k im om dep wd per freq) \<longleftrightarrow>
     safeInt per \<and> safeInt (dep - wd) \<and> safeInt freq"
  by (simp add: convertible_def mkAccount_def safeInt_numeral)

lemma fetched_sampleEnv: "fetched sampleEnv = Some [buyLogos, sellLogos, sellChaos, untracked]"
  by (simp add: fetched_def sampleEnv_def withRetry_unfold fetchOperation_def)

lemma allConvertible_sample: "allConvertible [buyLogos, sellLogos, sellChaos, untracked]"
  by (simp add: allConvertible_def buyLogos_def sellLogos_def sellChaos_def untracked_def
      convertible_mkAccount safeInt_numeral)

lemma sample_run: "getDCAAccounts exactArith sampleEnv = Inr sampleOut"
proof -
  from fetched_sampleEnv allConvertible_sample
  obtain out where "getDCAAccounts exactArith sampleEnv = Inr out"
    by (rule cycle_succeeds)
  then show ?thesis
    by (simp add: sampleOut_def)
qed

lemma pricesOf_sample: "pricesOf exactArith sampleEnv = \<lparr>LOGOS = 3, CHAOS = 0\<rparr>"
  by (simp add: pricesOf_def sampleEnv_def sampleFetch_def getCurrentPrice_def sample_mints
      exactArith_simps)

lemma partitions_sample:
  "[a \<leftarrow> [buyLogos, sellLogos, sellChaos, untracked]. outputMint (account a) = LOGOS_MINT] = [buyLogos]"
  "[a \<leftarrow> [buyLogos, sellLogos, sellChaos, untracked]. inputMint (account a) = LOGOS_MINT] = [sellLogos]"
  "[a \<leftarrow> [buyLogos, sellLogos, sellChaos, untracked]. outputMint (account a) = CHAOS_MINT] = []"
  "[a \<leftarrow> [buyLogos, sellLogos, sellChaos, untracked]. inputMint (account a) = CHAOS_MINT] = [sellChaos]"
  by (simp_all add: buyLogos_def sellLogos_def sellChaos_def untracked_def mkAccount_def
      sample_mints mints_distinct)

lemma positions_sample0:
  "positions sampleOut =
     map (\<lambda>pos. pos\<lparr>currentPrice := (if token pos = ''LOGOS'' then 3 else 0)\<rparr>)
       [positionOf exactArith buyLogos 0 ''LOGOS'' BUY,
        positionOf exactArith sellLogos 0 ''LOGOS'' SELL,
        positionOf exactArith sellChaos 0 ''CHAOS'' SELL]"
  unfolding cycle_result(3) [OF fetched_sampleEnv sample_run] partitions_sample pricesOf_sample
  by (simp add: exactArith_simps)

lemma positions_sample:
  "map token (positions sampleOut) = [''LOGOS'', ''LOGOS'', ''CHAOS'']"
  "map type_pos (positions sampleOut) = [BUY, SELL, SELL]"
  "map amountPerCycle (positions sampleOut) = [1, 1 / 2, 1]"
  "map currentPrice (positions sampleOut) = [3, 3, 0]"
  "map estimatedOutput (positions sampleOut) = [None, Some 0, Some 0]"
  "map remainingCycles (positions sampleOut) = [60, 3600, 120]"
  by (simp_all add: positions_sample0 positionOf_fields exactArith_simps
      buyLogos_def sellLogos_def sellChaos_def mkAccount_def)

lemma summary_sample:
  "summary sampleOut ''LOGOS'' =
     Some \<lparr>buyOrders = 1, sellOrders = 1, buyVolume = 1, sellVolume = 2,
           buyVolumeUSDC = 1, sellVolumeUSDC = 6\<rparr>"
  "summary sampleOut ''CHAOS'' =
     Some \<lparr>buyOrders = 0, sellOrders = 1, buyVolume = 0, sellVolume = 4,
           buyVolumeUSDC = 0, sellVolumeUSDC = 0\<rparr>"
  unfolding cycle_result(2) [OF fetched_sampleEnv sample_run] tokenSummary_def
    partitions_sample pricesOf_sample
  by (simp_all add: js_sum_def exactArith_simps buyLogos_def sellLogos_def sellChaos_def
      mkAccount_def)

lemma fetched_crossEnv: "fetched crossEnv = Some [logosToChaos]"
  by (simp add: fetched_def crossEnv_def withRetry_unfold fetchOperation_def)

lemma allConvertible_cross: "allConvertible [logosToChaos]"
  by (simp add: allConvertible_def logosToChaos_def convertible_mkAccount safeInt_numeral)

lemma getDCAAccounts_emptyEnv:
  "getDCAAccounts N emptyEnv = Inl (Error ''No accounts returned'')"
  by (simp add: getDCAAccounts_def emptyEnv_def withRetry_unfold fetchOperation_def)

lemma fetched_emptyTwiceEnv: "fetched emptyTwiceEnv = Some [buyLogos, sellLogos]"
  by (simp add: fetched_def emptyTwiceEnv_def withRetry_unfold fetchOperation_def)

lemma fetched_smallSellsEnv: "fetched smallSellsEnv = Some [smallSell1, smallSell2]"
  by (simp add: fetched_def smallSellsEnv_def withRetry_unfold fetchOperation_def)

lemma fetched_hugeEnv: "fetched hugeEnv = Some [hugeBuy]"
  by (simp add: fetched_def hugeEnv_def withRetry_unfold fetchOperation_def)

text \<open>A cycle whose accounts hold an amount of 54 bits fails, whatever the arithmetic.\<close>

lemma getDCAAccounts_hugeEnv: "isl (getDCAAccounts N hugeEnv)"
proof -
  have "matchesTracked hugeBuy"
    by (simp add: matchesTracked_def isTrackedMint_iff hugeBuy_def mkAccount_def)
  moreover have "\<not> convertible hugeBuy"
    by (simp add: hugeBuy_def convertible_mkAccount safeInt_numeral)
  ultimately have "\<not> allConvertible [hugeBuy]"
    by (simp add: allConvertible_def)
  with fetched_hugeEnv show ?thesis
    by (rule cycle_fails)
qed

lemma withRetry_failingOp:
  "withRetry failingOp =
     (Inl (Error ''refused''),
      [Attempt 1, Sleep 1000, Attempt 2, Sleep 2000, Attempt 3, Sleep 3000])"
  by (simp add: withRetry_unfold failingOp_def)

section \<open>Order counts and native volumes\<close>

text \<open>
  Claim C1. For the accounts that the fetch hands over, for the result of a cycle
  and for each tracked token: the summary entry of the token counts as
  \<open>buyOrders\<close> the accounts whose output mint is the token's mint and as
  \<open>sellOrders\<close> those whose input mint is the token's mint; \<open>buyVolume\<close> and
  \<open>sellVolume\<close> are the sums over these two partitions of
  \<open>(inDeposited - inWithdrawn) / 10^6\<close>, computed by the engine from 0 in the order
  of the accounts. (A cycle has a result exactly when the matching accounts convert:
  \<open>cycle_succeeds\<close>, \<open>cycle_fails\<close>.)
\<close>

theorem C1_summary_counts_and_volumes:
  assumes "fetched e = Some rawAccounts" and "getDCAAccounts N e = Inr out"
    and "(tok, m) \<in> set trackedTokens"
  shows "\<exists>s. summary out tok = Some s \<and>
           buyOrders s = length [a \<leftarrow> rawAccounts. outputMint (account a) = m] \<and>
           sellOrders s = length [a \<leftarrow> rawAccounts. inputMint (account a) = m] \<and>
           buyVolume s =
             js_sum N (\<lambda>a. decimal N (inDeposited (account a) - inWithdrawn (account a)))
               [a \<leftarrow> rawAccounts. outputMint (account a) = m] \<and>
           sellVolume s =
             js_sum N (\<lambda>a. decimal N (inDeposited (account a) - inWithdrawn (account a)))
               [a \<leftarrow> rawAccounts. inputMint (account a) = m]"
  by (simp add: tracked_summary [OF assms] tokenSummary_def)

text \<open>On the sample input, LOGOS has one buy of volume 1 and one sell of volume 2.\<close>

theorem C1_summary_counts_and_volumes_witness:
  "fetched sampleEnv = Some [buyLogos, sellLogos, sellChaos, untracked] \<and>
   getDCAAccounts exactArith sampleEnv = Inr sampleOut \<and>
   (''LOGOS'', LOGOS_MINT) \<in> set trackedTokens \<and>
   (\<exists>s. summary sampleOut ''LOGOS'' = Some s \<and>
      buyOrders s = 1 \<and> sellOrders s = 1 \<and> buyVolume s = 1 \<and> sellVolume s = 2)"
proof -
  have t: "(''LOGOS'', LOGOS_MINT) \<in> set trackedTokens"
    by (simp add: trackedTokens_def)
  from C1_summary_counts_and_volumes [OF fetched_sampleEnv sample_run t]
  obtain s where "summary sampleOut ''LOGOS'' = Some s"
    and "buyOrders s = length [a \<leftarrow> [buyLogos, sellLogos, sellChaos, untracked]. outputMint (account a) = LOGOS_MINT]"
    and "sellOrders s = length [a \<leftarrow> [buyLogos, sellLogos, sellChaos, untracked]. inputMint (account a) = LOGOS_MINT]"
    and "buyVolume s =
             js_sum exactArith (\<lambda>a. decimal exactArith (inDeposited (account a) - inWithdrawn (account a)))
               [a \<leftarrow> [buyLogos, sellLogos, sellChaos, untracked]. outputMint (account a) = LOGOS_MINT]"
    and "sellVolume s =
             js_sum exactArith (\<lambda>a. decimal exactArith (inDeposited (account a) - inWithdrawn (account a)))
               [a \<leftarrow> [buyLogos, sellLogos, sellChaos, untracked]. inputMint (account a) = LOGOS_MINT]"
    by blast
  then have "summary sampleOut ''LOGOS'' = Some s \<and>
      buyOrders s = 1 \<and> sellOrders s = 1 \<and> buyVolume s = 1 \<and> sellVolume s = 2"
    unfolding partitions_sample
    by (simp add: js_sum_def exactArith_simps buyLogos_def sellLogos_def mkAccount_def)
  with fetched_sampleEnv sample_run t show ?thesis
    by blast
qed

section \<open>Quote volumes\<close>

text \<open>
  Claim C2. For the result of a cycle and each tracked token, \<open>buyVolumeUSDC\<close> is
  \<open>Math.round\<close> of the sum over the buy partition of \<open>inAmountPerCycle / 10^6\<close>,
  and is the same whatever the price source answers; \<open>sellVolumeUSDC\<close> is
  \<open>Math.round\<close> of the sum over the sell partition of the native volume times the
  token's price: one rounding, of the sum. The sums are those of the engine, from 0
  in the order of the accounts.
\<close>

theorem C2_quote_volumes:
  assumes "fetched e = Some rawAccounts" and "getDCAAccounts N e = Inr out"
    and "(tok, m) \<in> set trackedTokens"
  shows "\<exists>s. summary out tok = Some s \<and>
           buyVolumeUSDC s =
             Math_round N (js_sum N (\<lambda>a. decimal N (inAmountPerCycle (account a)))
               [a \<leftarrow> rawAccounts. outputMint (account a) = m]) \<and>
           sellVolumeUSDC s =
             Math_round N
               (js_sum N (\<lambda>a. js_mul N (decimal N (inDeposited (account a) - inWithdrawn (account a)))
                                  (price (getCurrentPrice N (fetch e) m)))
                  [a \<leftarrow> rawAccounts. inputMint (account a) = m]) \<and>
           (\<forall>f'. \<exists>out' s'. getDCAAccounts N (e\<lparr>fetch := f'\<rparr>) = Inr out' \<and>
              summary out' tok = Some s' \<and> buyVolumeUSDC s' = buyVolumeUSDC s)"
proof -
  have indep: "\<exists>out' s'. getDCAAccounts N (e\<lparr>fetch := f'\<rparr>) = Inr out' \<and>
      summary out' tok = Some s' \<and>
      buyVolumeUSDC s' =
        buyVolumeUSDC (tokenSummary N rawAccounts m (price (getCurrentPrice N (fetch e) m)))" for f'
  proof -
    have f: "fetched (e\<lparr>fetch := f'\<rparr>) = Some rawAccounts"
      using assms(1) by (simp add: fetched_fetch_update)
    from f cycle_result(1) [OF assms(1,2)]
    obtain out' where run': "getDCAAccounts N (e\<lparr>fetch := f'\<rparr>) = Inr out'"
      by (rule cycle_succeeds)
    show ?thesis
      using run' by (simp add: tracked_summary [OF f run' assms(3)] tokenSummary_def)
  qed
  show ?thesis
    using indep by (simp add: tracked_summary [OF assms] tokenSummary_def)
qed

text \<open>On the sample input, LOGOS at price 3: one buy of 1 per cycle, one sell of volume 2.\<close>

theorem C2_quote_volumes_witness:
  "fetched sampleEnv = Some [buyLogos, sellLogos, sellChaos, untracked] \<and>
   getDCAAccounts exactArith sampleEnv = Inr sampleOut \<and>
   (''LOGOS'', LOGOS_MINT) \<in> set trackedTokens \<and>
   (\<exists>s. summary sampleOut ''LOGOS'' = Some s \<and> buyVolumeUSDC s = 1 \<and> sellVolumeUSDC s = 6)"
proof -
  have t: "(''LOGOS'', LOGOS_MINT) \<in> set trackedTokens"
    by (simp add: trackedTokens_def)
  have p: "price (getCurrentPrice exactArith (fetch sampleEnv) LOGOS_MINT) = 3"
    using pricesOf_sample by (simp add: pricesOf_def)
  from C2_quote_volumes [OF fetched_sampleEnv sample_run t]
  obtain s where "summary sampleOut ''LOGOS'' = Some s"
    and "buyVolumeUSDC s =
             Math_round exactArith (js_sum exactArith (\<lambda>a. decimal exactArith (inAmountPerCycle (account a)))
               [a \<leftarrow> [buyLogos, sellLogos, sellChaos, untracked]. outputMint (account a) = LOGOS_MINT])"
    and "sellVolumeUSDC s =
             Math_round exactArith
               (js_sum exactArith (\<lambda>a. js_mul exactArith (decimal exactArith (inDeposited (account a) - inWithdrawn (account a)))
                                  (price (getCurrentPrice exactArith (fetch sampleEnv) LOGOS_MINT)))
                  [a \<leftarrow> [buyLogos, sellLogos, sellChaos, untracked]. inputMint (account a) = LOGOS_MINT])"
    by blast
  then have "summary sampleOut ''LOGOS'' = Some s \<and> buyVolumeUSDC s = 1 \<and> sellVolumeUSDC s = 6"
    unfolding partitions_sample p
    by (simp add: js_sum_def exactArith_simps buyLogos_def sellLogos_def mkAccount_def)
  with fetched_sampleEnv sample_run t show ?thesis
    by blast
qed

text \<open>
  Two sells worth \<open>3/8\<close> each: the rounded sum is 1, the sum of the rounded
  values would be 0.
\<close>

lemma sellVolumeUSDC_rounds_the_sum:
  "\<exists>out s. getDCAAccounts exactArith smallSellsEnv = Inr out \<and> summary out ''LOGOS'' = Some s \<and>
     sellVolume s = 1 / 4 \<and> sellVolumeUSDC s = 1 \<and>
     Math_round exactArith (3 / 8) + Math_round exactArith (3 / 8) = 0"
proof -
  have "allConvertible [smallSell1, smallSell2]"
    by (simp add: allConvertible_def smallSell1_def smallSell2_def convertible_mkAccount
        safeInt_numeral)
  with fetched_smallSellsEnv obtain out where run: "getDCAAccounts exactArith smallSellsEnv = Inr out"
    by (rule cycle_succeeds)
  have t: "(''LOGOS'', LOGOS_MINT) \<in> set trackedTokens"
    by (simp add: trackedTokens_def)
  have p: "price (getCurrentPrice exactArith (fetch smallSellsEnv) LOGOS_MINT) = 3"
    by (simp add: smallSellsEnv_def goodFetch_def getCurrentPrice_def mints_distinct
        exactArith_simps)
  have i: "[a \<leftarrow> [smallSell1, smallSell2]. inputMint (account a) = LOGOS_MINT] = [smallSell1, smallSell2]"
    by (simp add: smallSell1_def smallSell2_def mkAccount_def)
  have "sellVolume (tokenSummary exactArith [smallSell1, smallSell2] LOGOS_MINT 3) = 1 / 4"
    "sellVolumeUSDC (tokenSummary exactArith [smallSell1, smallSell2] LOGOS_MINT 3) = 1"
    unfolding tokenSummary_def i
    by (simp_all add: js_sum_def exactArith_simps smallSell1_def smallSell2_def mkAccount_def)
  moreover have "Math_round exactArith (3 / 8) + Math_round exactArith (3 / 8) = 0"
    by (simp add: exactArith_simps)
  ultimately show ?thesis
    using run tracked_summary [OF fetched_smallSellsEnv run t] by (simp add: p)
qed

section \<open>Estimated output\<close>

text \<open>
  Claim C3 says that \<open>estimatedOutput\<close> of a SELL position is its
  \<open>amountPerCycle\<close> times its \<open>currentPrice\<close>. The code computes it in
  \<open>convertDCAAccount\<close> from the price argument, which \<open>getDCAAccounts\<close> passes as
  0; the later update of the positions overwrites \<open>currentPrice\<close> only. On the
  sample input the LOGOS sell has \<open>amountPerCycle = 1/2\<close> and \<open>currentPrice = 3\<close>,
  and its \<open>estimatedOutput\<close> is 0, not \<open>3/2\<close>.
\<close>

theorem C3_estimatedOutput_ignores_price:
  "\<exists>out. getDCAAccounts exactArith sampleEnv = Inr out \<and>
     map type_pos (positions out) = [BUY, SELL, SELL] \<and>
     map amountPerCycle (positions out) = [1, 1 / 2, 1] \<and>
     map currentPrice (positions out) = [3, 3, 0] \<and>
     map estimatedOutput (positions out) = [None, Some 0, Some 0]"
  by (intro exI [of _ sampleOut] conjI sample_run positions_sample)

text \<open>
  Whatever the arithmetic: \<open>estimatedOutput\<close> is present exactly for SELL, and
  is then the amount per cycle times the number 0.
\<close>

lemma estimatedOutput_uses_zero:
  assumes "fetched e = Some rawAccounts" and "getDCAAccounts N e = Inr out"
    and "p \<in> set (positions out)"
  shows "estimatedOutput p =
           (if type_pos p = SELL then Some (js_mul N (amountPerCycle p) (num N 0)) else None)"
proof -
  from position_origin [OF assms] obtain a tok ty where
    p: "p = (positionOf N a (num N 0) tok ty)\<lparr>currentPrice :=
                (if tok = ''LOGOS'' then LOGOS (pricesOf N e) else CHAOS (pricesOf N e))\<rparr>"
    by blast
  show ?thesis
    by (simp add: p positionOf_fields)
qed

section \<open>Input and output token of a position\<close>

text \<open>
  Claim C4. Every position in the result of a cycle belongs to a tracked token; a
  BUY position has \<open>inputToken = USDC\<close> and \<open>outputToken\<close> the token's symbol, a
  SELL position has \<open>inputToken\<close> the token's symbol and \<open>outputToken = USDC\<close>.
  The direction being BUY or SELL, the two fields are a function of direction and
  symbol.
\<close>

theorem C4_tokens_by_direction:
  assumes "fetched e = Some rawAccounts" and "getDCAAccounts N e = Inr out"
  shows "\<forall>p \<in> set (positions out).
           token p \<in> fst ` set trackedTokens \<and>
           (type_pos p = BUY \<longrightarrow> inputToken p = ''USDC'' \<and> outputToken p = token p) \<and>
           (type_pos p = SELL \<longrightarrow> inputToken p = token p \<and> outputToken p = ''USDC'')"
proof
  fix p assume "p \<in> set (positions out)"
  from position_origin [OF assms this] obtain a tok ty where
    tr: "(tok, if ty = BUY then outputMint (account a) else inputMint (account a)) \<in> set trackedTokens"
    and p: "p = (positionOf N a (num N 0) tok ty)\<lparr>currentPrice :=
                (if tok = ''LOGOS'' then LOGOS (pricesOf N e) else CHAOS (pricesOf N e))\<rparr>"
    by blast
  from tr have "tok \<in> fst ` set trackedTokens" by force
  then show "token p \<in> fst ` set trackedTokens \<and>
           (type_pos p = BUY \<longrightarrow> inputToken p = ''USDC'' \<and> outputToken p = token p) \<and>
           (type_pos p = SELL \<longrightarrow> inputToken p = token p \<and> outputToken p = ''USDC'')"
    by (simp add: p positionOf_fields)
qed

text \<open>The sample input gives one BUY and two SELL positions.\<close>

theorem C4_tokens_by_direction_witness:
  "fetched sampleEnv = Some [buyLogos, sellLogos, sellChaos, untracked] \<and>
   getDCAAccounts exactArith sampleEnv = Inr sampleOut \<and>
   map type_pos (positions sampleOut) = [BUY, SELL, SELL] \<and>
   list_all (\<lambda>p. token p \<in> fst ` set trackedTokens \<and>
               (type_pos p = BUY \<longrightarrow> inputToken p = ''USDC'' \<and> outputToken p = token p) \<and>
               (type_pos p = SELL \<longrightarrow> inputToken p = token p \<and> outputToken p = ''USDC''))
     (positions sampleOut)"
proof -
  from C4_tokens_by_direction [OF fetched_sampleEnv sample_run]
  have "list_all (\<lambda>p. token p \<in> fst ` set trackedTokens \<and>
               (type_pos p = BUY \<longrightarrow> inputToken p = ''USDC'' \<and> outputToken p = token p) \<and>
               (type_pos p = SELL \<longrightarrow> inputToken p = token p \<and> outputToken p = ''USDC''))
     (positions sampleOut)"
    by (simp only: list_all_iff)
  with fetched_sampleEnv sample_run positions_sample(2) show ?thesis
    by (intro conjI)
qed

section \<open>Orders and matching accounts\<close>

text \<open>Each of the four partitions is counted once, whatever the other three hold.\<close>

lemma totalOrders_eq:
  assumes "fetched e = Some accs" and "getDCAAccounts N e = Inr out"
  shows "totalOrders out =
     length [a \<leftarrow> accs. outputMint (account a) = LOGOS_MINT] +
     length [a \<leftarrow> accs. inputMint (account a) = LOGOS_MINT] +
     (length [a \<leftarrow> accs. outputMint (account a) = CHAOS_MINT] +
      length [a \<leftarrow> accs. inputMint (account a) = CHAOS_MINT])"
  by (simp add: totalOrders_def trackedTokens_def cycle_result(2) [OF assms] tokenSummary_def)

lemma partition_counts:
  assumes "\<forall>a \<in> set accs. \<not> (isTrackedMint (inputMint (account a)) \<and> isTrackedMint (outputMint (account a)))"
  shows "length [a \<leftarrow> accs. outputMint (account a) = LOGOS_MINT] +
     length [a \<leftarrow> accs. inputMint (account a) = LOGOS_MINT] +
     (length [a \<leftarrow> accs. outputMint (account a) = CHAOS_MINT] +
      length [a \<leftarrow> accs. inputMint (account a) = CHAOS_MINT]) =
     length (filter matchesTracked accs)"
  using assms
proof (induction accs)
  case Nil
  then show ?case by simp
next
  case (Cons a accs)
  then show ?case
    using mints_distinct by (auto simp: matchesTracked_def isTrackedMint_iff)
qed

text \<open>
  Claim C5, amended. If no account has both its input mint and its output mint among
  the tracked mints, then in the result of a cycle the sum of \<open>buyOrders\<close> and
  \<open>sellOrders\<close> over the tracked tokens is the number of accounts whose input mint
  or output mint is tracked.
\<close>

theorem C5_orders_count_matching:
  assumes "fetched e = Some rawAccounts" and "getDCAAccounts N e = Inr out"
    and "\<forall>a \<in> set rawAccounts.
           \<not> (isTrackedMint (inputMint (account a)) \<and> isTrackedMint (outputMint (account a)))"
  shows "totalOrders out = length (filter matchesTracked rawAccounts)"
  by (simp only: totalOrders_eq [OF assms(1,2)] partition_counts [OF assms(3)])

text \<open>The sample input: three of the four accounts match, each in one partition.\<close>

theorem C5_orders_count_matching_witness:
  "fetched sampleEnv = Some [buyLogos, sellLogos, sellChaos, untracked] \<and>
   getDCAAccounts exactArith sampleEnv = Inr sampleOut \<and>
   list_all (\<lambda>a. \<not> (isTrackedMint (inputMint (account a)) \<and> isTrackedMint (outputMint (account a))))
     [buyLogos, sellLogos, sellChaos, untracked] \<and>
   totalOrders sampleOut = 3"
proof -
  have h: "\<forall>a \<in> set [buyLogos, sellLogos, sellChaos, untracked].
      \<not> (isTrackedMint (inputMint (account a)) \<and> isTrackedMint (outputMint (account a)))"
    by (simp add: isTrackedMint_iff buyLogos_def sellLogos_def sellChaos_def untracked_def
        mkAccount_def sample_mints)
  then have h': "list_all (\<lambda>a. \<not> (isTrackedMint (inputMint (account a)) \<and> isTrackedMint (outputMint (account a))))
     [buyLogos, sellLogos, sellChaos, untracked]"
    by (simp only: list_all_iff)
  have n: "length (filter matchesTracked [buyLogos, sellLogos, sellChaos, untracked]) = 3"
    by (simp add: matchesTracked_def isTrackedMint_iff buyLogos_def sellLogos_def sellChaos_def
        untracked_def mkAccount_def sample_mints)
  from C5_orders_count_matching [OF fetched_sampleEnv sample_run h]
  have "totalOrders sampleOut = 3"
    by (simp only: n)
  with fetched_sampleEnv sample_run h' show ?thesis
    by (intro conjI)
qed

text \<open>
  Without the condition the equality fails: an order that sells LOGOS for CHAOS is a
  LOGOS sell and a CHAOS buy, so one matching account gives two orders.
\<close>

theorem C5_double_count_counterexample:
  "fetched crossEnv = Some [logosToChaos] \<and>
   \<not> isl (getDCAAccounts exactArith crossEnv) \<and>
   totalOrders (projr (getDCAAccounts exactArith crossEnv)) = 2 \<and>
   length (filter matchesTracked [logosToChaos]) = 1"
proof -
  from fetched_crossEnv allConvertible_cross
  obtain out where run: "getDCAAccounts exactArith crossEnv = Inr out"
    by (rule cycle_succeeds)
  have "totalOrders out = 2"
    by (simp add: totalOrders_eq [OF fetched_crossEnv run] logosToChaos_def mkAccount_def
        sample_mints mints_distinct)
  moreover have "length (filter matchesTracked [logosToChaos]) = 1"
    by (simp add: matchesTracked_def isTrackedMint_iff logosToChaos_def mkAccount_def)
  ultimately show ?thesis
    using run fetched_crossEnv by simp
qed

section \<open>Retry policy\<close>

text \<open>
  Claim C6, amended. \<open>withRetry\<close> makes at most 3 attempts and stops at the first
  that succeeds. Counting the attempts from 1, as the log of the code does, the wait
  after the failed attempt \<open>n\<close> is \<open>n\<close> times 1000 ms: nothing precedes attempt 1,
  the wait before attempt \<open>n\<close> is \<open>1000 * (n - 1)\<close> ms, and 3000 ms pass after the
  third failure before the wrapper gives up. The outcome is that of the last attempt
  made, so after three failures the error of the third.
\<close>

theorem C6_retry_policy:
  "withRetry operation =
     (if \<not> isl (operation 0) then (operation 0, [Attempt 1])
      else if \<not> isl (operation 1) then (operation 1, [Attempt 1, Sleep 1000, Attempt 2])
      else if \<not> isl (operation 2)
        then (operation 2, [Attempt 1, Sleep 1000, Attempt 2, Sleep 2000, Attempt 3])
      else (operation 2, [Attempt 1, Sleep 1000, Attempt 2, Sleep 2000, Attempt 3, Sleep 3000])) \<and>
   length (filter is_Attempt (snd (withRetry operation))) \<le> 3 \<and>
   (\<forall>n ms. delayAfter (snd (withRetry operation)) n = Some ms \<longrightarrow> ms = 1000 * n) \<and>
   (\<forall>n ms. delayBefore (snd (withRetry operation)) n = Some ms \<longrightarrow> ms = 1000 * (n - 1))"
proof (intro conjI allI impI)
  show "withRetry operation =
     (if \<not> isl (operation 0) then (operation 0, [Attempt 1])
      else if \<not> isl (operation 1) then (operation 1, [Attempt 1, Sleep 1000, Attempt 2])
      else if \<not> isl (operation 2)
        then (operation 2, [Attempt 1, Sleep 1000, Attempt 2, Sleep 2000, Attempt 3])
      else (operation 2, [Attempt 1, Sleep 1000, Attempt 2, Sleep 2000, Attempt 3, Sleep 3000]))"
    by (rule withRetry_cases)
next
  show "length (filter is_Attempt (snd (withRetry operation))) \<le> 3"
    by (simp add: withRetry_cases)
next
  fix n ms assume "delayAfter (snd (withRetry operation)) n = Some ms"
  then show "ms = 1000 * n"
    by (auto simp: withRetry_cases split: if_splits)
next
  fix n ms assume "delayBefore (snd (withRetry operation)) n = Some ms"
  then show "ms = 1000 * (n - 1)"
    by (auto simp: withRetry_cases delayBefore_def split: if_splits)
qed

text \<open>An operation rejected once: one wait of 1000 ms, then the second attempt returns.\<close>

theorem C6_retry_policy_witness:
  "isl (secondTryOp 0) \<and> \<not> isl (secondTryOp 1) \<and>
   withRetry secondTryOp = (Inr [buyLogos], [Attempt 1, Sleep 1000, Attempt 2]) \<and>
   delayAfter (snd (withRetry secondTryOp)) 1 = Some 1000"
proof -
  have h: "isl (secondTryOp 0)" "\<not> isl (secondTryOp 1)"
    by (simp_all add: secondTryOp_def)
  from C6_retry_policy [of secondTryOp] h
  have w: "withRetry secondTryOp = (secondTryOp 1, [Attempt 1, Sleep 1000, Attempt 2])"
    by simp
  then have "withRetry secondTryOp = (Inr [buyLogos], [Attempt 1, Sleep 1000, Attempt 2])"
    by (simp add: secondTryOp_def)
  with h show ?thesis
    by simp
qed

text \<open>
  With the attempts counted from 1, the wait before attempt \<open>i\<close> is not \<open>i\<close> times
  1000 ms: three failures give no wait before attempt 1, 1000 ms before attempt 2 and
  2000 ms before attempt 3 (and 3000 ms after it).
\<close>

theorem C6_delay_counterexample:
  "withRetry failingOp =
     (Inl (Error ''refused''),
      [Attempt 1, Sleep 1000, Attempt 2, Sleep 2000, Attempt 3, Sleep 3000]) \<and>
   delayBefore (snd (withRetry failingOp)) 1 = Some 0 \<and>
   delayBefore (snd (withRetry failingOp)) 2 = Some 1000 \<and>
   delayBefore (snd (withRetry failingOp)) 3 = Some 2000 \<and>
   delayBefore (snd (withRetry failingOp)) 1 \<noteq> Some (1 * 1000) \<and>
   delayBefore (snd (withRetry failingOp)) 2 \<noteq> Some (2 * 1000) \<and>
   delayBefore (snd (withRetry failingOp)) 3 \<noteq> Some (3 * 1000)"
  by (simp add: withRetry_failingOp delayBefore_def)

section \<open>Missing prices\<close>

lemma zero_sum:
  assumes "zeroLaws N" and "\<forall>a \<in> set xs. safeInt (g a)"
  shows "js_sum N (\<lambda>a. js_mul N (decimal N (g a)) (num N 0)) xs = num N 0"
  using assms(2) unfolding js_sum_def
proof (induction xs)
  case Nil
  then show ?case by simp
next
  case (Cons a xs)
  from assms(1) Cons.prems
  have "js_add N (num N 0) (js_mul N (decimal N (g a)) (num N 0)) = num N 0"
    by (simp add: zeroLaws_def)
  with Cons show ?case by simp
qed

text \<open>
  Claim C7. If the price source fails for a tracked token or has no price for it, a
  cycle whose accounts were fetched and convert still has a result; every position of
  that token (so every SELL position) has \<open>currentPrice = 0\<close>; with the arithmetic
  of 0 that doubles have, the token's \<open>sellVolumeUSDC\<close> is 0; and \<open>buyOrders\<close>,
  \<open>buyVolume\<close> and \<open>buyVolumeUSDC\<close> are what they are with any other answer of the
  price source.
\<close>

theorem C7_missing_price_is_zero:
  assumes "fetched e = Some rawAccounts" and "allConvertible rawAccounts"
    and "(tok, m) \<in> set trackedTokens" and "noPrice N (fetch e m) m" and "zeroLaws N"
  shows "\<exists>out s. getDCAAccounts N e = Inr out \<and> summary out tok = Some s \<and>
           (\<forall>p \<in> set (positions out). token p = tok \<longrightarrow> currentPrice p = num N 0) \<and>
           sellVolumeUSDC s = num N 0 \<and>
           (\<forall>f'. \<exists>out' s'. getDCAAccounts N (e\<lparr>fetch := f'\<rparr>) = Inr out' \<and>
              summary out' tok = Some s' \<and> buyOrders s' = buyOrders s \<and>
              buyVolume s' = buyVolume s \<and> buyVolumeUSDC s' = buyVolumeUSDC s)"
proof -
  from assms(1,2) obtain out where run: "getDCAAccounts N e = Inr out"
    by (rule cycle_succeeds)
  have zero: "price (getCurrentPrice N (fetch e) m) = num N 0"
    using assms(4) by (rule noPrice_price)
  define s where "s = tokenSummary N rawAccounts m (num N 0)"
  have s: "summary out tok = Some s"
    by (simp add: s_def tracked_summary [OF assms(1) run assms(3)] zero)
  have tm: "isTrackedMint m"
    using assms(3) by (auto simp: isTrackedMint_def intro: rev_image_eqI)
  have "\<forall>a \<in> set [a \<leftarrow> rawAccounts. inputMint (account a) = m].
      safeInt (inDeposited (account a) - inWithdrawn (account a))"
    using allConvertible_partition(2) [OF assms(2) tm] convertible_safe(1) by blast
  then have sell: "sellVolumeUSDC s = num N 0"
    using assms(5) by (simp add: s_def tokenSummary_def zero_sum [OF assms(5)] zeroLaws_def)
  have cur: "\<forall>p \<in> set (positions out). token p = tok \<longrightarrow> currentPrice p = num N 0"
  proof (intro ballI impI)
    fix p assume "p \<in> set (positions out)" and tok: "token p = tok"
    from position_origin [OF assms(1) run this(1)] obtain a tok' ty where
      p: "p = (positionOf N a (num N 0) tok' ty)\<lparr>currentPrice :=
                  (if tok' = ''LOGOS'' then LOGOS (pricesOf N e) else CHAOS (pricesOf N e))\<rparr>"
      by blast
    have "tok' = tok" using tok by (simp add: p positionOf_fields)
    with assms(3) zero show "currentPrice p = num N 0"
      by (auto simp: p pricesOf_def elim!: tracked_cases)
  qed
  have indep: "\<exists>out' s'. getDCAAccounts N (e\<lparr>fetch := f'\<rparr>) = Inr out' \<and>
      summary out' tok = Some s' \<and> buyOrders s' = buyOrders s \<and>
      buyVolume s' = buyVolume s \<and> buyVolumeUSDC s' = buyVolumeUSDC s" for f'
  proof -
    have f: "fetched (e\<lparr>fetch := f'\<rparr>) = Some rawAccounts"
      using assms(1) by (simp add: fetched_fetch_update)
    from f assms(2) obtain out' where run': "getDCAAccounts N (e\<lparr>fetch := f'\<rparr>) = Inr out'"
      by (rule cycle_succeeds)
    show ?thesis
      using run' by (simp add: tracked_summary [OF f run' assms(3)] s_def tokenSummary_def)
  qed
  from run s cur sell indep show ?thesis
    by - (rule exI [of _ out], rule exI [of _ s], intro conjI allI, assumption+)
qed

text \<open>In the sample input the price request for CHAOS fails.\<close>

theorem C7_missing_price_is_zero_witness:
  "fetched sampleEnv = Some [buyLogos, sellLogos, sellChaos, untracked] \<and>
   allConvertible [buyLogos, sellLogos, sellChaos, untracked] \<and>
   (''CHAOS'', CHAOS_MINT) \<in> set trackedTokens \<and>
   noPrice exactArith (fetch sampleEnv CHAOS_MINT) CHAOS_MINT \<and>
   zeroLaws exactArith \<and>
   (\<exists>out s. getDCAAccounts exactArith sampleEnv = Inr out \<and> summary out ''CHAOS'' = Some s \<and>
      map token (positions out) = [''LOGOS'', ''LOGOS'', ''CHAOS''] \<and>
      map currentPrice (positions out) = [3, 3, 0] \<and>
      sellOrders s = 1 \<and> sellVolumeUSDC s = 0)"
proof -
  have t: "(''CHAOS'', CHAOS_MINT) \<in> set trackedTokens"
    by (simp add: trackedTokens_def)
  have n: "noPrice exactArith (fetch sampleEnv CHAOS_MINT) CHAOS_MINT"
    by (simp add: noPrice_def sampleEnv_def sampleFetch_def sample_mints)
  from C7_missing_price_is_zero [OF fetched_sampleEnv allConvertible_sample t n zeroLaws_exactArith]
  obtain out s where
    run: "getDCAAccounts exactArith sampleEnv = Inr out" and s: "summary out ''CHAOS'' = Some s"
    and sell: "sellVolumeUSDC s = num exactArith 0"
    by blast
  from run sample_run have out: "out = sampleOut"
    by simp
  from s have "sellOrders s = 1"
    by (auto simp: out summary_sample)
  with run s sell positions_sample(1,4)
  have "\<exists>out s. getDCAAccounts exactArith sampleEnv = Inr out \<and> summary out ''CHAOS'' = Some s \<and>
      map token (positions out) = [''LOGOS'', ''LOGOS'', ''CHAOS''] \<and>
      map currentPrice (positions out) = [3, 3, 0] \<and>
      sellOrders s = 1 \<and> sellVolumeUSDC s = 0"
    by (intro exI [of _ out] exI [of _ s]) (simp add: out exactArith_simps)
  with fetched_sampleEnv allConvertible_sample t n zeroLaws_exactArith show ?thesis
    by (intro conjI)
qed

section \<open>Empty results\<close>

text \<open>
  Claim C8. With the SDK initialised, an absent or empty result of \<open>getAll\<close> makes
  the attempt fail with \<open>No accounts returned\<close>; the cycle fails exactly when all
  three attempts fail or the accounts of the attempt that succeeds do not convert;
  and the attempts and waits of the retry wrapper depend only on which attempts
  fail, not on whether they failed by an empty result or by an error.
\<close>

theorem C8_empty_result_is_retried:
  assumes "dca e = Some getAll"
  shows "(\<forall>k. getAll k = Inr None \<or> getAll k = Inr (Some []) \<longrightarrow>
            fetchOperation getAll k = Inl (Error ''No accounts returned'')) \<and>
         (isl (getDCAAccounts N e) \<longleftrightarrow>
            (\<forall>k<3. isl (fetchOperation getAll k)) \<or>
            (\<exists>accs. fetched e = Some accs \<and> \<not> allConvertible accs)) \<and>
         (\<forall>getAll'. (\<forall>k<3. isl (fetchOperation getAll' k) = isl (fetchOperation getAll k)) \<longrightarrow>
            snd (withRetry (fetchOperation getAll')) = snd (withRetry (fetchOperation getAll)))"
proof (intro conjI allI impI)
  fix k assume "getAll k = Inr None \<or> getAll k = Inr (Some [])"
  then show "fetchOperation getAll k = Inl (Error ''No accounts returned'')"
    by (auto simp: fetchOperation_def)
next
  show "isl (getDCAAccounts N e) \<longleftrightarrow>
          (\<forall>k<3. isl (fetchOperation getAll k)) \<or>
          (\<exists>accs. fetched e = Some accs \<and> \<not> allConvertible accs)"
  proof (cases "fetched e")
    case None
    then show ?thesis
      using getDCAAccounts_not_fetched [OF None, of N] fetched_None_iff [OF assms] by simp
  next
    case (Some accs)
    have n: "\<not> (\<forall>k<3. isl (fetchOperation getAll k))"
      using Some fetched_None_iff [OF assms] by simp
    show ?thesis
    proof (cases "allConvertible accs")
      case True
      with Some obtain out where "getDCAAccounts N e = Inr out"
        by (rule cycle_succeeds)
      with True Some n show ?thesis by simp
    next
      case False
      with Some have "isl (getDCAAccounts N e)"
        by (rule cycle_fails)
      with False Some show ?thesis by simp
    qed
  qed
next
  fix getAll' :: "nat \<Rightarrow> js_error + DCAAccountType list option"
  assume "\<forall>k<3. isl (fetchOperation getAll' k) = isl (fetchOperation getAll k)"
  then show "snd (withRetry (fetchOperation getAll')) = snd (withRetry (fetchOperation getAll))"
    by (rule withRetry_trace_cong)
qed

text \<open>An account source that is always empty, against one that always raises.\<close>

theorem C8_empty_result_is_retried_witness:
  "dca emptyEnv = Some (\<lambda>k. Inr (Some [])) \<and>
   fetchOperation (\<lambda>k. Inr (Some [])) 0 = Inl (Error ''No accounts returned'') \<and>
   isl (getDCAAccounts exactArith emptyEnv) \<and>
   snd (withRetry (fetchOperation (\<lambda>k. Inl (Error ''network'')))) =
     snd (withRetry (fetchOperation (\<lambda>k. Inr (Some []))))"
proof -
  have d: "dca emptyEnv = Some (\<lambda>k. Inr (Some []))"
    by (simp add: emptyEnv_def)
  have f: "\<forall>k<3. isl (fetchOperation (\<lambda>k. Inr (Some [])) k)"
    by (simp add: fetchOperation_def)
  have g: "\<forall>k<3. isl (fetchOperation (\<lambda>k. Inl (Error ''network'')) k) =
      isl (fetchOperation (\<lambda>k. Inr (Some [])) k)"
    by (simp add: fetchOperation_def)
  from C8_empty_result_is_retried [OF d, of exactArith] f g d show ?thesis
    by blast
qed

text \<open>Two empty answers and then two accounts: the cycle has a result, after two waits.\<close>

lemma emptyTwice_succeeds:
  "\<not> isl (getDCAAccounts exactArith emptyTwiceEnv) \<and>
   snd (withRetry (fetchOperation (the (dca emptyTwiceEnv)))) =
     [Attempt 1, Sleep 1000, Attempt 2, Sleep 2000, Attempt 3]"
proof -
  have "allConvertible [buyLogos, sellLogos]"
    by (simp add: allConvertible_def buyLogos_def sellLogos_def convertible_mkAccount
        safeInt_numeral)
  with fetched_emptyTwiceEnv obtain out where "getDCAAccounts exactArith emptyTwiceEnv = Inr out"
    by (rule cycle_succeeds)
  then show ?thesis
    by (simp add: emptyTwiceEnv_def withRetry_unfold fetchOperation_def)
qed

section \<open>Cycle frequency and remaining cycles\<close>

text \<open>
  Claim C9. Every position in the result of a cycle has \<open>remainingCycles\<close> equal
  to \<open>cycleFrequency\<close>, both being the number of the \<open>cycleFrequency\<close> of the
  account it was converted from.
\<close>

theorem C9_remaining_is_frequency:
  assumes "fetched e = Some rawAccounts" and "getDCAAccounts N e = Inr out"
  shows "\<forall>p \<in> set (positions out).
           remainingCycles p = cycleFrequency_pos p \<and>
           (\<exists>a \<in> set rawAccounts. id_pos p = publicKey a \<and>
              cycleFrequency_pos p = num N (cycleFrequency (account a)) \<and>
              remainingCycles p = num N (cycleFrequency (account a)))"
proof
  fix p assume "p \<in> set (positions out)"
  from position_origin [OF assms this] obtain a tok ty where
    a: "a \<in> set rawAccounts"
    and p: "p = (positionOf N a (num N 0) tok ty)\<lparr>currentPrice :=
                (if tok = ''LOGOS'' then LOGOS (pricesOf N e) else CHAOS (pricesOf N e))\<rparr>"
    by blast
  have "id_pos p = publicKey a" "cycleFrequency_pos p = num N (cycleFrequency (account a))"
    "remainingCycles p = num N (cycleFrequency (account a))"
    by (simp_all add: p positionOf_fields)
  with a show "remainingCycles p = cycleFrequency_pos p \<and>
           (\<exists>a \<in> set rawAccounts. id_pos p = publicKey a \<and>
              cycleFrequency_pos p = num N (cycleFrequency (account a)) \<and>
              remainingCycles p = num N (cycleFrequency (account a)))"
    by auto
qed

text \<open>The three positions of the sample input.\<close>

theorem C9_remaining_is_frequency_witness:
  "fetched sampleEnv = Some [buyLogos, sellLogos, sellChaos, untracked] \<and>
   getDCAAccounts exactArith sampleEnv = Inr sampleOut \<and>
   map remainingCycles (positions sampleOut) = [60, 3600, 120] \<and>
   list_all (\<lambda>p. remainingCycles p = cycleFrequency_pos p) (positions sampleOut)"
proof -
  from C9_remaining_is_frequency [OF fetched_sampleEnv sample_run]
  have "list_all (\<lambda>p. remainingCycles p = cycleFrequency_pos p) (positions sampleOut)"
    by (simp add: list_all_iff)
  with fetched_sampleEnv sample_run positions_sample(6) show ?thesis
    by (intro conjI)
qed

section \<open>A failed cycle in the dashboard\<close>

text \<open>
  Claim C10. When \<open>getDCAAccounts\<close> fails, \<open>fetchData\<close> leaves positions,
  summary and chart data as they were, sets the error message, leaves \<open>loading\<close>
  set, and schedules one more \<open>fetchData\<close> after 2000 ms; nothing else changes.
\<close>

theorem C10_failed_cycle_keeps_snapshot:
  assumes "getDCAAccounts N e = Inl err"
  shows "fetchData N e d st =
           st\<lparr>loading := True, error := Some ''Failed to fetch data. Retrying...'',
              timers := timers st @ [Timeout 2000]\<rparr> \<and>
         positions_st (fetchData N e d st) = positions_st st \<and>
         summaryData (fetchData N e d st) = summaryData st \<and>
         chartData_st (fetchData N e d st) = chartData_st st \<and>
         error (fetchData N e d st) \<noteq> None \<and>
         loading (fetchData N e d st) \<and>
         timers (fetchData N e d st) = timers st @ [Timeout 2000]"
  using assms by (simp add: fetchData_def)

text \<open>The always-empty account source, starting from a dashboard that shows one position.\<close>

theorem C10_failed_cycle_keeps_snapshot_witness:
  "getDCAAccounts exactArith emptyEnv = Inl (Error ''No accounts returned'') \<and>
   fetchData exactArith emptyEnv 1700000000000 sampleDashboard =
     sampleDashboard\<lparr>loading := True, error := Some ''Failed to fetch data. Retrying...'',
        timers := [Timeout 2000]\<rparr>"
  using C10_failed_cycle_keeps_snapshot [OF getDCAAccounts_emptyEnv, of exactArith 1700000000000 sampleDashboard]
    getDCAAccounts_emptyEnv [of exactArith]
  by (simp add: sampleDashboard_def)

end
